theory Spec2Isabelle
  imports Complex_Main "HOL-Library.Log_Nat"
begin

section \<open>Errors and the numpy operations used by the decoder loop\<close>

text \<open>
  The module \<^verbatim>\<open>keras_htr/models/encoder_decoder.py\<close> is embedded function by function.
  Python exceptions are values of the type \<open>error\<close>; a function that may raise returns
  \<open>error + 'a\<close> with \<open>Inl\<close> for the exception. Python integers are \<open>int\<close>, tensors
  of floats are lists of \<open>real\<close> (rounding and NaN are outside the model).
\<close>

datatype error =
    IndexError | ValueError | KeyError | TypeError | NameError | ZeroDivisionError
  | OverflowError | FileNotFoundError | NotADirectoryError | JSONDecodeError | FrameworkError

text \<open>\<^verbatim>\<open>np.zeros((1, n))\<close>: a row of \<open>n\<close> zeros; a negative dimension raises ValueError.\<close>

definition np_zeros :: "int \<Rightarrow> error + real list" where
  "np_zeros n = (if n < 0 then Inl ValueError else Inr (replicate (nat n) 0))"

text \<open>
  \<^verbatim>\<open>y[0, k] = 1.0\<close>: numpy index assignment; a negative index counts from the end, an
  index outside \<open>[-n, n)\<close> raises IndexError.
\<close>

definition set_item :: "real list \<Rightarrow> int \<Rightarrow> real \<Rightarrow> error + real list" where
  "set_item y k v =
     (let n = int (length y); j = (if k < 0 then n + k else k)
      in if 0 \<le> j \<and> j < n then Inr (y[nat j := v]) else Inl IndexError)"

text \<open>The two statements \<^verbatim>\<open>y_prev = np.zeros((1, n)); y_prev[0, k] = 1.0\<close>.\<close>

definition one_hot :: "int \<Rightarrow> int \<Rightarrow> error + real list" where
  "one_hot n k = (case np_zeros n of Inl e \<Rightarrow> Inl e | Inr y \<Rightarrow> set_item y k 1)"

text \<open>
  \<^verbatim>\<open>np.argmax(pmf)\<close>: the index of the first occurrence of the largest entry; the empty
  vector raises ValueError. \<open>argmax_from vs i best bv\<close> scans the rest \<open>vs\<close> starting
  at index \<open>i\<close>, with the best index and value so far.
\<close>

fun argmax_from :: "real list \<Rightarrow> nat \<Rightarrow> nat \<Rightarrow> real \<Rightarrow> nat" where
  "argmax_from [] i best bv = best"
| "argmax_from (v # vs) i best bv =
     (if bv < v then argmax_from vs (Suc i) i v else argmax_from vs (Suc i) best bv)"

definition np_argmax :: "real list \<Rightarrow> error + int" where
  "np_argmax pmf =
     (case pmf of [] \<Rightarrow> Inl ValueError | v # vs \<Rightarrow> Inr (int (argmax_from vs 1 0 v)))"

section \<open>InferenceModel\<close>

text \<open>
  \<^verbatim>\<open>InferenceModel.__init__\<close> stores the three sub-networks and \<open>num_output_tokens\<close>.
  The networks are opaque callables of the framework, so they are fields of function
  type; each of them may raise. \<open>'x\<close> is the image, \<open>'e\<close> the encoder activations and
  \<open>'s\<close> a recurrent state vector (\<open>state_h\<close>, \<open>state_c\<close>). The encoder field stands for
  lines 21-23: unpacking \<^verbatim>\<open>x.shape\<close>, the reshape to a batch of one and the encoder call.
\<close>

record ('x, 'e, 's) InferenceModel =
  encoder :: "'x \<Rightarrow> error + ('e \<times> 's \<times> 's)"
  decoder :: "real list \<Rightarrow> 's \<Rightarrow> 's \<Rightarrow> error + (real list \<times> 's \<times> 's)"
  attention :: "'e \<Rightarrow> 's \<Rightarrow> 's \<Rightarrow> error + real list"
  num_output_tokens :: int

text \<open>
  Lines 31-42, the part of the loop body before the tests: attention, concatenation of
  the context with \<open>y_prev\<close>, the decoder step, the argmax and the new one-hot
  \<open>y_prev\<close>. The loop variables are \<open>(y_prev, state_h, state_c)\<close>; the result is the
  argmax code with their new values.
\<close>

definition decode_step ::
  "('x, 'e, 's) InferenceModel \<Rightarrow> 'e \<Rightarrow> real list \<times> 's \<times> 's
     \<Rightarrow> error + (int \<times> real list \<times> 's \<times> 's)" where
  "decode_step M encoder_activations st =
     (case st of (y_prev, state_h, state_c) \<Rightarrow>
      (case attention M encoder_activations state_h state_c of
         Inl e \<Rightarrow> Inl e
       | Inr context \<Rightarrow>
          (case decoder M (context @ y_prev) state_h state_c of
             Inl e \<Rightarrow> Inl e
           | Inr (pmf, state_h', state_c') \<Rightarrow>
              (case np_argmax pmf of
                 Inl e \<Rightarrow> Inl e
               | Inr code \<Rightarrow>
                  (case one_hot (num_output_tokens M) code of
                     Inl e \<Rightarrow> Inl e
                   | Inr y_prev' \<Rightarrow> Inr (code, y_prev', state_h', state_c'))))))"

text \<open>
  The \<^verbatim>\<open>while True\<close> loop of lines 30-50. It has no bound of its own, so it is a partial
  function: \<open>None\<close> is a run that never leaves the loop, \<open>Some (Inl e)\<close> a raised
  exception and \<open>Some (Inr labels)\<close> the returned list.
\<close>

partial_function (option) decode_loop ::
  "('x, 'e, 's) InferenceModel \<Rightarrow> 'e \<Rightarrow> int \<Rightarrow> int \<Rightarrow> real list \<times> 's \<times> 's \<Rightarrow> int list
     \<Rightarrow> (error + int list) option" where
  "decode_loop M encoder_activations sos eos st labels =
     (case decode_step M encoder_activations st of
        Inl e \<Rightarrow> Some (Inl e)
      | Inr (code, st') \<Rightarrow>
          if code = eos \<or> length labels > 100 then Some (Inr labels)
          else if code = sos then decode_loop M encoder_activations sos eos st' labels
          else decode_loop M encoder_activations sos eos st' (labels @ [code]))"

text \<open>\<^verbatim>\<open>predict_single_output\<close>, lines 20-52.\<close>

definition predict_single_output ::
  "('x, 'e, 's) InferenceModel \<Rightarrow> 'x \<Rightarrow> int \<Rightarrow> int \<Rightarrow> (error + int list) option" where
  "predict_single_output M x sos eos =
     (case encoder M x of
        Inl e \<Rightarrow> Some (Inl e)
      | Inr (encoder_activations, state_h, state_c) \<Rightarrow>
          (case one_hot (num_output_tokens M) sos of
             Inl e \<Rightarrow> Some (Inl e)
           | Inr y_prev \<Rightarrow>
               decode_loop M encoder_activations sos eos (y_prev, state_h, state_c) []))"

text \<open>
  The argmax codes of a run, for stating properties of the loop: \<open>run_steps M a st n\<close>
  performs the loop body \<open>n\<close> times from the loop variables \<open>st\<close>, without the tests,
  and returns the codes in order with the loop variables reached. The body does not read
  \<open>labels\<close>, \<open>sos\<close> or \<open>eos\<close>, so the codes of a run do not depend on them.
\<close>

fun run_steps ::
  "('x, 'e, 's) InferenceModel \<Rightarrow> 'e \<Rightarrow> real list \<times> 's \<times> 's \<Rightarrow> nat
     \<Rightarrow> error + (int list \<times> real list \<times> 's \<times> 's)" where
  "run_steps M a st 0 = Inr ([], st)"
| "run_steps M a st (Suc n) =
     (case decode_step M a st of
        Inl e \<Rightarrow> Inl e
      | Inr (code, st') \<Rightarrow>
          (case run_steps M a st' n of
             Inl e \<Rightarrow> Inl e
           | Inr (codes, st'') \<Rightarrow> Inr (code # codes, st'')))"

text \<open>
  \<open>argmax_codes M x sos n\<close>: the first \<open>n\<close> argmax codes that the decoder produces for
  the image \<open>x\<close>, starting as \<open>predict_single_output\<close> does; \<open>None\<close> when something
  raises before.
\<close>

definition argmax_codes ::
  "('x, 'e, 's) InferenceModel \<Rightarrow> 'x \<Rightarrow> int \<Rightarrow> nat \<Rightarrow> int list option" where
  "argmax_codes M x sos n =
     (case encoder M x of
        Inl e \<Rightarrow> None
      | Inr (encoder_activations, state_h, state_c) \<Rightarrow>
          (case one_hot (num_output_tokens M) sos of
             Inl e \<Rightarrow> None
           | Inr y_prev \<Rightarrow>
               (case run_steps M encoder_activations (y_prev, state_h, state_c) n of
                  Inl e \<Rightarrow> None
                | Inr (codes, st) \<Rightarrow> Some codes)))"

text \<open>
  Concrete models for evaluation. The decoder of \<open>scripted_model n codes d\<close> counts its
  calls in \<open>state_h\<close> and answers the one-hot distribution of length \<open>n\<close> at
  \<open>codes ! k\<close> on call \<open>k\<close>, and at \<open>d\<close> once the script is over.
\<close>

definition scripted_model :: "nat \<Rightarrow> nat list \<Rightarrow> nat \<Rightarrow> (unit, unit, nat) InferenceModel" where
  "scripted_model n codes d =
     \<lparr> encoder = (\<lambda>x. Inr ((), 0, 0)),
       decoder = (\<lambda>z state_h state_c.
          Inr ((replicate n 0)[(if state_h < length codes then codes ! state_h else d) := 1],
               Suc state_h, state_c)),
       attention = (\<lambda>a state_h state_c. Inr []),
       num_output_tokens = int n \<rparr>"

section \<open>ConvolutionalEncoderDecoderWithAttention\<close>

text \<open>
  The graph that the framework builds from layer calls is kept symbolic: a tensor is an
  input placeholder with its shape, or output number \<open>k\<close> of a layer applied to
  tensors. \<open>Lambda\<close> is a layer object made by line 105,
  \<^verbatim>\<open>Lambda(lambda x: x[:, t, :])\<close>. Its function holds no value of \<open>t\<close>: it refers to
  the variable \<open>t\<close> of the frame of \<^verbatim>\<open>_create_training_model\<close> and reads it whenever the
  layer is called. \<open>Slice i\<close> is the operation \<^verbatim>\<open>x[:, i, :]\<close> that such a call performs
  while \<open>t\<close> is \<open>i\<close>.
\<close>

datatype layer = EncoderNet | DecoderNet | AttentionNet | Concatenate int | Lambda | Slice int

datatype tensor = Input "int list" | Out layer "tensor list" nat

text \<open>
  The functions \<^verbatim>\<open>make_encoder_model\<close>, \<^verbatim>\<open>make_step_decoder_model\<close> and
  \<^verbatim>\<open>make_attention_model\<close> (lines 209-274) assemble framework layers, and
  \<^verbatim>\<open>compute_output_shape\<close> is imported from the package; the model takes what they
  return as parameters.
\<close>

record ('x, 'e, 's) framework =
  make_encoder_model :: "int \<Rightarrow> int \<Rightarrow> int \<Rightarrow> ('x \<Rightarrow> error + ('e \<times> 's \<times> 's))"
  make_step_decoder_model ::
    "int \<Rightarrow> int \<Rightarrow> int \<Rightarrow> (real list \<Rightarrow> 's \<Rightarrow> 's \<Rightarrow> error + (real list \<times> 's \<times> 's))"
  make_attention_model :: "int \<Rightarrow> int \<Rightarrow> ('e \<Rightarrow> 's \<Rightarrow> 's \<Rightarrow> error + real list)"
  compute_output_shape :: "int \<times> int \<times> int \<Rightarrow> int \<times> int"

text \<open>
  JSON values, as far as \<^verbatim>\<open>params.json\<close> needs them. An object is the list of its
  members in order.
\<close>

datatype json = JInt int | JString string | JObject "(string \<times> json) list"

text \<open>The attributes that \<^verbatim>\<open>__init__\<close> (lines 57-88) sets on \<^verbatim>\<open>self\<close>.\<close>

record ('x, 'e, 's) Model =
  self_height :: int
  self_units :: int
  self_output_size :: int
  self_max_image_width :: int
  self_max_text_length :: int
  self_sos :: int
  self_eos :: int
  self_encoder_inputs :: tensor
  self_decoder_inputs :: tensor
  self_encoder :: "'x \<Rightarrow> error + ('e \<times> 's \<times> 's)"
  self_decoder :: "real list \<Rightarrow> 's \<Rightarrow> 's \<Rightarrow> error + (real list \<times> 's \<times> 's)"
  self_attention :: "'e \<Rightarrow> 's \<Rightarrow> 's \<Rightarrow> error + real list"
  self_num_output_tokens :: int
  self_preprocessing_options :: json

definition init ::
  "('x, 'e, 's) framework \<Rightarrow> int \<Rightarrow> int \<Rightarrow> int \<Rightarrow> int \<Rightarrow> int \<Rightarrow> int \<Rightarrow> int \<Rightarrow> ('x, 'e, 's) Model" where
  "init fw height units output_size max_image_width max_text_length sos eos =
     (let channels = 1;
          Tx = max_text_length;
          context_size = units;
          decoder_input_size = context_size + output_size;
          encoder_inputs = Input [height, max_image_width, channels];
          decoder_inputs = Input [Tx, output_size];
          encoder = make_encoder_model fw height channels units;
          decoder = make_step_decoder_model fw units decoder_input_size output_size;
          num_activations = fst (compute_output_shape fw (height, max_image_width, 1));
          attention = make_attention_model fw num_activations units
      in \<lparr> self_height = height, self_units = units, self_output_size = output_size,
           self_max_image_width = max_image_width, self_max_text_length = max_text_length,
           self_sos = sos, self_eos = eos,
           self_encoder_inputs = encoder_inputs, self_decoder_inputs = decoder_inputs,
           self_encoder = encoder, self_decoder = decoder, self_attention = attention,
           self_num_output_tokens = output_size,
           self_preprocessing_options = JObject [] \<rparr>)"

text \<open>The property \<^verbatim>\<open>inference_model\<close>, lines 90-93.\<close>

definition inference_model :: "('x, 'e, 's) Model \<Rightarrow> ('x, 'e, 's) InferenceModel" where
  "inference_model M =
     \<lparr> encoder = self_encoder M, decoder = self_decoder M, attention = self_attention M,
       num_output_tokens = self_num_output_tokens M \<rparr>"

subsection \<open>The training graph\<close>

text \<open>\<^verbatim>\<open>range(n)\<close>: empty when \<open>n\<close> is not positive.\<close>

definition py_range :: "int \<Rightarrow> int list" where
  "py_range n = map int [0..<nat n]"

text \<open>
  The body of the \<^verbatim>\<open>for\<close> loop of lines 101-110, over the remaining values of the
  loop variable, with the variables \<open>t\<close> (unbound before the first iteration),
  \<open>state_h\<close>, \<open>state_c\<close> and \<open>outputs\<close>. The \<^verbatim>\<open>print\<close> of line 102 writes to the
  console and is left out.
\<close>

fun training_steps ::
  "tensor \<Rightarrow> tensor \<Rightarrow> int list \<Rightarrow> int option \<Rightarrow> tensor \<Rightarrow> tensor \<Rightarrow> tensor list
     \<Rightarrow> int option \<times> tensor list" where
  "training_steps encoder_activations decoder_inputs [] t state_h state_c outputs = (t, outputs)"
| "training_steps encoder_activations decoder_inputs (i # rest) t state_h state_c outputs =
     (let t = Some i;
          inputs = [encoder_activations, state_h, state_c];
          context = Out AttentionNet inputs 0;
          y = Out Lambda [decoder_inputs] 0;
          z = Out (Concatenate 1) [context, y] 0;
          y_hat = Out DecoderNet [z, state_h, state_c] 0;
          state_h' = Out DecoderNet [z, state_h, state_c] 1;
          state_c' = Out DecoderNet [z, state_h, state_c] 2
      in training_steps encoder_activations decoder_inputs rest t state_h' state_c'
           (outputs @ [y_hat]))"

text \<open>
  \<^verbatim>\<open>tf.keras.Model(inputs, outputs)\<close>: the inputs and the outputs of the graph. The model
  keeps the layer objects of the graph; \<open>frame_t\<close> is the variable \<open>t\<close> that its
  \<open>Lambda\<close> layers refer to, as the loop has left it.
\<close>

record keras_model =
  model_inputs :: "tensor list"
  model_outputs :: "tensor list"
  frame_t :: "int option"

definition create_training_model :: "('x, 'e, 's) Model \<Rightarrow> keras_model" where
  "create_training_model M =
     (let x = self_encoder_inputs M;
          encoder_activations = Out EncoderNet [x] 0;
          state_h = Out EncoderNet [x] 1;
          state_c = Out EncoderNet [x] 2;
          (t, outputs) = training_steps encoder_activations (self_decoder_inputs M)
                           (py_range (self_max_text_length M)) None state_h state_c []
      in \<lparr> model_inputs = [self_encoder_inputs M, self_decoder_inputs M],
           model_outputs = outputs, frame_t = t \<rparr>)"

text \<open>
  Running the model on data, as its \<^verbatim>\<open>fit\<close> does, calls the layers of the graph again,
  the inputs of a layer before the layer. The run is kept symbolic too: it is the graph
  of the operations performed, in which each call of a \<open>Lambda\<close> layer has read \<open>t\<close>
  from the frame (NameError while \<open>t\<close> is unbound).
\<close>

fun run_tensor :: "int option \<Rightarrow> tensor \<Rightarrow> error + tensor"
  and run_tensors :: "int option \<Rightarrow> tensor list \<Rightarrow> error + tensor list" where
  "run_tensor t (Input shape) = Inr (Input shape)"
| "run_tensor t (Out l args k) =
     (case run_tensors t args of
        Inl e \<Rightarrow> Inl e
      | Inr args' \<Rightarrow>
          (case l of
             Lambda \<Rightarrow> (case t of None \<Rightarrow> Inl NameError | Some i \<Rightarrow> Inr (Out (Slice i) args' k))
           | _ \<Rightarrow> Inr (Out l args' k)))"
| "run_tensors t [] = Inr []"
| "run_tensors t (a # rest) =
     (case run_tensor t a of
        Inl e \<Rightarrow> Inl e
      | Inr a' \<Rightarrow>
          (case run_tensors t rest of Inl e \<Rightarrow> Inl e | Inr rest' \<Rightarrow> Inr (a' # rest')))"

definition run_model :: "keras_model \<Rightarrow> error + tensor list" where
  "run_model km = run_tensors (frame_t km) (model_outputs km)"

text \<open>
  The unrolled chain as the specification describes it, to compare with: the state
  \<open>(h, c)\<close> before step \<open>t\<close> is the encoder's final state for \<open>t = 0\<close> and the state
  returned by the decoder at step \<open>t - 1\<close> otherwise; the output of step \<open>t\<close> is the
  decoder's distribution for the attention context of that state concatenated with the
  token input of step \<open>t\<close>. The layer \<open>token t\<close> that gives the token input of step \<open>t\<close>
  from the teacher-forcing input is a parameter; in the specification it takes slice
  \<open>t\<close>.
\<close>

definition unrolled_call ::
  "('x, 'e, 's) Model \<Rightarrow> (nat \<Rightarrow> layer) \<Rightarrow> nat \<Rightarrow> tensor \<times> tensor \<Rightarrow> nat \<Rightarrow> tensor" where
  "unrolled_call M token t hc k =
     (let activations = Out EncoderNet [self_encoder_inputs M] 0;
          context = Out AttentionNet [activations, fst hc, snd hc] 0;
          y = Out (token t) [self_decoder_inputs M] 0
      in Out DecoderNet [Out (Concatenate 1) [context, y] 0, fst hc, snd hc] k)"

fun unrolled_state :: "('x, 'e, 's) Model \<Rightarrow> (nat \<Rightarrow> layer) \<Rightarrow> nat \<Rightarrow> tensor \<times> tensor" where
  "unrolled_state M token 0 =
     (Out EncoderNet [self_encoder_inputs M] 1, Out EncoderNet [self_encoder_inputs M] 2)"
| "unrolled_state M token (Suc t) =
     (unrolled_call M token t (unrolled_state M token t) 1,
      unrolled_call M token t (unrolled_state M token t) 2)"

definition unrolled_output :: "('x, 'e, 's) Model \<Rightarrow> (nat \<Rightarrow> layer) \<Rightarrow> nat \<Rightarrow> tensor" where
  "unrolled_output M token t = unrolled_call M token t (unrolled_state M token t) 0"

definition spec_output :: "('x, 'e, 's) Model \<Rightarrow> nat \<Rightarrow> tensor" where
  "spec_output M t = unrolled_output M (\<lambda>t. Slice (int t)) t"

subsection \<open>The adapter\<close>

text \<open>
  The keyword arguments with which \<^verbatim>\<open>get_adapter\<close> (lines 114-121) calls the constructor
  of \<^verbatim>\<open>ConvolutionalEncoderDecoderAdapter\<close>.
\<close>

record ConvolutionalEncoderDecoderAdapter =
  adapter_sos :: int
  adapter_eos :: int
  adapter_num_output_tokens :: int
  adapter_max_image_width :: int
  adapter_max_text_length :: int

definition get_adapter :: "('x, 'e, 's) Model \<Rightarrow> ConvolutionalEncoderDecoderAdapter" where
  "get_adapter M =
     \<lparr> adapter_sos = self_sos M,
       adapter_eos = self_eos M,
       adapter_num_output_tokens = self_num_output_tokens M,
       adapter_max_image_width = self_max_image_width M,
       adapter_max_text_length = self_max_text_length M - 1 \<rparr>"

subsection \<open>fit\<close>

text \<open>
  A generator, as far as \<^verbatim>\<open>fit\<close> reads it: its \<^verbatim>\<open>size\<close> and \<^verbatim>\<open>batch_size\<close>, both
  integers, and the iterator \<open>'g\<close> that \<^verbatim>\<open>__iter__\<close> returns.
\<close>

record 'g generator =
  gen_size :: int
  gen_batch_size :: int
  gen_iter :: 'g

text \<open>
  \<^verbatim>\<open>a / b\<close> on integers is the quotient rounded to the nearest double, ties to the even
  mantissa. \<open>binary_exponent a b\<close> is the exponent \<open>e\<close> of the quotient of two positive
  integers, \<open>2^e \<le> a / b < 2^(e + 1)\<close>, found from their bit lengths.
\<close>

definition binary_exponent :: "int \<Rightarrow> int \<Rightarrow> int" where
  "binary_exponent a b =
     (let d = bitlen a - bitlen b
      in if real_of_int b * 2 powi d \<le> real_of_int a then d else d - 1)"

definition round_half_even :: "real \<Rightarrow> int" where
  "round_half_even y =
     (let f = \<lfloor>y\<rfloor>
      in if y - of_int f < 1 / 2 then f
         else if 1 / 2 < y - of_int f then f + 1
         else if even f then f else f + 1)"

text \<open>
  A double has 53 bits of mantissa: a quotient of exponent \<open>e\<close> is rounded to a multiple
  of \<open>2^(e - 52)\<close>, and of \<open>2^(-1074)\<close> below the normal range. Division by zero raises
  ZeroDivisionError, a result of \<open>2^1024\<close> or more OverflowError; a quotient too small
  becomes zero.
\<close>

definition true_div :: "int \<Rightarrow> int \<Rightarrow> error + real" where
  "true_div a b =
     (if b = 0 then Inl ZeroDivisionError
      else if a = 0 then Inr 0
      else
        (let e = max (binary_exponent \<bar>a\<bar> \<bar>b\<bar>) (- 1022);
             q = 2 powi (e - 52);
             m = round_half_even (\<bar>real_of_int a / real_of_int b\<bar> / q);
             r = of_int m * q
         in if 2 powi 1024 \<le> r then Inl OverflowError
            else Inr (if (a < 0) \<noteq> (b < 0) then - r else r)))"

text \<open>\<^verbatim>\<open>math.ceil(a / b)\<close>: the ceiling of that double.\<close>

definition ceil_div :: "int \<Rightarrow> int \<Rightarrow> error + int" where
  "ceil_div a b = (case true_div a b of Inl e \<Rightarrow> Inl e | Inr r \<Rightarrow> Inr \<lceil>r\<rceil>)"

text \<open>
  The objects that \<^verbatim>\<open>fit\<close> handles: optimizers \<^verbatim>\<open>Adam(lr=...)\<close>, the empty list, and
  whatever else a caller puts into the dictionaries, of some type \<open>'v\<close>. A caller can
  pass an \<open>Adam\<close> optimizer of its own.
\<close>

datatype 'v pyobj = Adam real | EmptyList | Other 'v

text \<open>\<^verbatim>\<open>d or {}\<close> for an argument that is \<^verbatim>\<open>None\<close> or a dictionary.\<close>

definition or_empty :: "(string \<rightharpoonup> 'v) option \<Rightarrow> (string \<rightharpoonup> 'v)" where
  "or_empty d = (case d of None \<Rightarrow> Map.empty | Some m \<Rightarrow> m)"

text \<open>
  What \<^verbatim>\<open>fit\<close> (lines 129-151) does is two calls on the training model; the record
  holds their arguments: those of \<^verbatim>\<open>compile\<close> and those of the model's own \<^verbatim>\<open>fit\<close>.
\<close>

record ('g, 'v) training_calls =
  trained_model :: keras_model
  compile_optimizer :: "'v pyobj"
  compile_loss :: string
  compile_metrics :: "'v pyobj"
  fit_data :: 'g
  fit_steps_per_epoch :: int
  fit_validation_data :: 'g
  fit_validation_steps :: int
  fit_kwargs :: "string \<rightharpoonup> 'v pyobj"

text \<open>
  The call of lines 150-151 passes \<^verbatim>\<open>steps_per_epoch\<close>, \<^verbatim>\<open>validation_data\<close> and
  \<^verbatim>\<open>validation_steps\<close> by keyword and then \<^verbatim>\<open>**training_params\<close>: a dictionary that has
  one of these keys repeats a keyword argument, which raises TypeError. What the
  framework's \<^verbatim>\<open>compile\<close> and \<^verbatim>\<open>fit\<close> do with their arguments is not part of the model.
\<close>

definition fit ::
  "('x, 'e, 's) Model \<Rightarrow> 'g generator \<Rightarrow> 'g generator \<Rightarrow> (string \<rightharpoonup> 'v pyobj) option
     \<Rightarrow> (string \<rightharpoonup> 'v pyobj) option \<Rightarrow> error + ('g, 'v) training_calls" where
  "fit M train_generator val_generator compilation_params training_params =
     (case ceil_div (gen_size train_generator) (gen_batch_size train_generator) of
        Inl e \<Rightarrow> Inl e
      | Inr steps_per_epoch \<Rightarrow>
     (case ceil_div (gen_size val_generator) (gen_batch_size val_generator) of
        Inl e \<Rightarrow> Inl e
      | Inr val_steps \<Rightarrow>
         (let compilation_params = or_empty compilation_params;
              training_params = or_empty training_params;
              optimizer = (case compilation_params ''optimizer'' of
                             Some v \<Rightarrow> v | None \<Rightarrow> Adam (1 / 1000));
              metrics = (case compilation_params ''metrics'' of
                           Some v \<Rightarrow> v | None \<Rightarrow> EmptyList);
              training_model = create_training_model M
          in if training_params ''steps_per_epoch'' \<noteq> None
                \<or> training_params ''validation_data'' \<noteq> None
                \<or> training_params ''validation_steps'' \<noteq> None
             then Inl TypeError
             else Inr \<lparr> trained_model = training_model,
                        compile_optimizer = optimizer,
                        compile_loss = ''categorical_crossentropy'',
                        compile_metrics = metrics,
                        fit_data = gen_iter train_generator,
                        fit_steps_per_epoch = steps_per_epoch,
                        fit_validation_data = gen_iter val_generator,
                        fit_validation_steps = val_steps,
                        fit_kwargs = training_params \<rparr>)))"

subsection \<open>save and load\<close>

text \<open>
  The file system, as far as \<^verbatim>\<open>save\<close> and \<^verbatim>\<open>load\<close> use it: the set of directories and
  the content of each regular file. A file holds a JSON document (the text that
  \<^verbatim>\<open>json.loads\<close> reads back to it) or a sub-network saved by the framework.
\<close>

datatype ('x, 'e, 's) stored_file =
    JsonFile json
  | EncoderFile "'x \<Rightarrow> error + ('e \<times> 's \<times> 's)"
  | DecoderFile "real list \<Rightarrow> 's \<Rightarrow> 's \<Rightarrow> error + (real list \<times> 's \<times> 's)"
  | AttentionFile "'e \<Rightarrow> 's \<Rightarrow> 's \<Rightarrow> error + real list"

record ('x, 'e, 's) filesystem =
  dirs :: "string set"
  files :: "string \<rightharpoonup> ('x, 'e, 's) stored_file"

text \<open>
  \<^verbatim>\<open>os.path.join(path, name)\<close> for a relative \<open>name\<close>: a separator is put between the
  two unless \<open>path\<close> is empty or ends with one.
\<close>

definition path_join :: "string \<Rightarrow> string \<Rightarrow> string" where
  "path_join path name =
     (if path = [] \<or> last path = CHR ''/'' then path @ name else path @ ''/'' @ name)"

definition path_exists :: "('x, 'e, 's) filesystem \<Rightarrow> string \<Rightarrow> bool" where
  "path_exists fs path = (path \<in> dirs fs \<or> path \<in> dom (files fs))"

text \<open>\<^verbatim>\<open>os.mkdir(path)\<close>, called when nothing exists at \<open>path\<close>; the parent is taken to exist.\<close>

definition mkdir :: "('x, 'e, 's) filesystem \<Rightarrow> string \<Rightarrow> ('x, 'e, 's) filesystem" where
  "mkdir fs path = fs\<lparr>dirs := insert path (dirs fs)\<rparr>"

text \<open>
  Writing the file \<open>p\<close> of the directory \<open>dir\<close>: it raises when \<open>dir\<close> is not a
  directory, or when \<open>p\<close> is one.
\<close>

definition write_file ::
  "('x, 'e, 's) filesystem \<Rightarrow> string \<Rightarrow> string \<Rightarrow> ('x, 'e, 's) stored_file \<Rightarrow> error + ('x, 'e, 's) filesystem" where
  "write_file fs dir p content =
     (if dir \<notin> dirs fs then Inl NotADirectoryError
      else if p \<in> dirs fs then Inl FrameworkError
      else Inr (fs\<lparr>files := (files fs)(p \<mapsto> content)\<rparr>))"

text \<open>
  Modelled from the spec: \<^verbatim>\<open>save_model_params\<close> is a method of the base class
  \<^verbatim>\<open>HTRModel\<close>, whose module is not part of the sources. By the description of the
  configuration record it writes the JSON object with the members \<^verbatim>\<open>name\<close>, \<^verbatim>\<open>params\<close>
  and \<^verbatim>\<open>preprocessing\<close> to the given path.
\<close>

definition save_model_params ::
  "('x, 'e, 's) filesystem \<Rightarrow> string \<Rightarrow> string \<Rightarrow> string \<Rightarrow> json \<Rightarrow> json
     \<Rightarrow> error + ('x, 'e, 's) filesystem" where
  "save_model_params fs dir params_path name model_params preprocessing_params =
     write_file fs dir params_path
       (JsonFile (JObject [(''name'', JString name), (''params'', model_params),
                           (''preprocessing'', preprocessing_params)]))"

text \<open>\<^verbatim>\<open>save\<close>, lines 158-184.\<close>

definition save ::
  "('x, 'e, 's) filesystem \<Rightarrow> ('x, 'e, 's) Model \<Rightarrow> string \<Rightarrow> json \<Rightarrow> error + ('x, 'e, 's) filesystem" where
  "save fs M path preprocessing_params =
     (let fs0 = (if \<not> path_exists fs path then mkdir fs path else fs);
          params_path = path_join path ''params.json'';
          encoder_weights_path = path_join path ''encoder.h5'';
          decoder_weights_path = path_join path ''decoder.h5'';
          attention_weights_path = path_join path ''attention.h5'';
          model_params = JObject
            [(''height'', JInt (self_height M)), (''units'', JInt (self_units M)),
             (''output_size'', JInt (self_output_size M)),
             (''max_image_width'', JInt (self_max_image_width M)),
             (''max_text_length'', JInt (self_max_text_length M)),
             (''sos'', JInt (self_sos M)),
             (''eos'', JInt (self_eos M))]
      in case save_model_params fs0 path params_path
                ''ConvolutionalEncoderDecoderWithAttention'' model_params preprocessing_params of
           Inl e \<Rightarrow> Inl e
         | Inr fs1 \<Rightarrow>
        (case write_file fs1 path encoder_weights_path (EncoderFile (self_encoder M)) of
           Inl e \<Rightarrow> Inl e
         | Inr fs2 \<Rightarrow>
        (case write_file fs2 path decoder_weights_path (DecoderFile (self_decoder M)) of
           Inl e \<Rightarrow> Inl e
         | Inr fs3 \<Rightarrow>
            write_file fs3 path attention_weights_path (AttentionFile (self_attention M)))))"

text \<open>
  \<^verbatim>\<open>d[key]\<close> on what \<^verbatim>\<open>json.loads\<close> returned: KeyError for a missing member, TypeError
  when \<open>d\<close> is not an object. For a repeated member the parser keeps the last one.
\<close>

definition get_member :: "json \<Rightarrow> string \<Rightarrow> error + json" where
  "get_member d key =
     (case d of
        JObject members \<Rightarrow>
          (case map_of (rev members) key of None \<Rightarrow> Inl KeyError | Some v \<Rightarrow> Inr v)
      | _ \<Rightarrow> Inl TypeError)"

text \<open>
  One keyword argument of \<^verbatim>\<open>cls(**params)\<close>; the constructor's arguments are the integers
  of the configuration, another JSON value is refused by the framework.
\<close>

definition int_arg :: "(string \<times> json) list \<Rightarrow> string \<Rightarrow> error + int" where
  "int_arg members key =
     (case map_of (rev members) key of
        Some (JInt n) \<Rightarrow> Inr n
      | Some _ \<Rightarrow> Inl FrameworkError
      | None \<Rightarrow> Inl TypeError)"

text \<open>
  \<^verbatim>\<open>cls(**params)\<close>, line 199: TypeError unless \<open>params\<close> is an object whose member
  names are the seven parameters of \<^verbatim>\<open>__init__\<close>.
\<close>

definition construct :: "('x, 'e, 's) framework \<Rightarrow> json \<Rightarrow> error + ('x, 'e, 's) Model" where
  "construct fw params =
     (case params of
        JObject members \<Rightarrow>
          if set (map fst members) \<noteq>
               set [''height'', ''units'', ''output_size'', ''max_image_width'',
                    ''max_text_length'', ''sos'', ''eos'']
          then Inl TypeError
          else
            (case int_arg members ''height'' of Inl e \<Rightarrow> Inl e | Inr height \<Rightarrow>
            (case int_arg members ''units'' of Inl e \<Rightarrow> Inl e | Inr units \<Rightarrow>
            (case int_arg members ''output_size'' of Inl e \<Rightarrow> Inl e | Inr output_size \<Rightarrow>
            (case int_arg members ''max_image_width'' of Inl e \<Rightarrow> Inl e | Inr max_image_width \<Rightarrow>
            (case int_arg members ''max_text_length'' of Inl e \<Rightarrow> Inl e | Inr max_text_length \<Rightarrow>
            (case int_arg members ''sos'' of Inl e \<Rightarrow> Inl e | Inr sos \<Rightarrow>
            (case int_arg members ''eos'' of Inl e \<Rightarrow> Inl e | Inr eos \<Rightarrow>
               Inr (init fw height units output_size max_image_width max_text_length
                      sos eos))))))))
      | _ \<Rightarrow> Inl TypeError)"

text \<open>\<^verbatim>\<open>load\<close>, lines 186-206.\<close>

definition load ::
  "('x, 'e, 's) framework \<Rightarrow> ('x, 'e, 's) filesystem \<Rightarrow> string \<Rightarrow> error + ('x, 'e, 's) Model" where
  "load fw fs path =
     (let params_path = path_join path ''params.json'';
          encoder_weights_path = path_join path ''encoder.h5'';
          decoder_weights_path = path_join path ''decoder.h5'';
          attention_weights_path = path_join path ''attention.h5''
      in case files fs params_path of
           None \<Rightarrow> Inl FileNotFoundError
         | Some (JsonFile d) \<Rightarrow>
            (case get_member d ''params'' of Inl e \<Rightarrow> Inl e | Inr params \<Rightarrow>
            (case construct fw params of Inl e \<Rightarrow> Inl e | Inr instance \<Rightarrow>
            (case files fs encoder_weights_path of
               None \<Rightarrow> Inl FileNotFoundError
             | Some (EncoderFile enc) \<Rightarrow>
                (case files fs decoder_weights_path of
                   None \<Rightarrow> Inl FileNotFoundError
                 | Some (DecoderFile dec) \<Rightarrow>
                    (case files fs attention_weights_path of
                       None \<Rightarrow> Inl FileNotFoundError
                     | Some (AttentionFile att) \<Rightarrow>
                        (case get_member d ''preprocessing'' of
                           Inl e \<Rightarrow> Inl e
                         | Inr preprocessing \<Rightarrow>
                             Inr (instance\<lparr> self_encoder := enc, self_decoder := dec,
                                            self_attention := att,
                                            self_preprocessing_options := preprocessing \<rparr>))
                     | Some _ \<Rightarrow> Inl FrameworkError)
                 | Some _ \<Rightarrow> Inl FrameworkError)
             | Some _ \<Rightarrow> Inl FrameworkError)))
         | Some _ \<Rightarrow> Inl JSONDecodeError)"

text \<open>A framework and a model for evaluation: every network raises when it is called.\<close>

definition stub_framework :: "(unit, unit, nat) framework" where
  "stub_framework =
     \<lparr> make_encoder_model = (\<lambda>height channels units x. Inl FrameworkError),
       make_step_decoder_model = (\<lambda>units input_size output_size z state_h state_c. Inl FrameworkError),
       make_attention_model = (\<lambda>num_activations units a state_h state_c. Inl FrameworkError),
       compute_output_shape = (\<lambda>shape. (fst shape, fst (snd shape))) \<rparr>"

definition empty_filesystem :: "(unit, unit, nat) filesystem" where
  "empty_filesystem = \<lparr> dirs = {}, files = Map.empty \<rparr>"

section \<open>The decoder loop\<close>

lemma argmax_from_bound: "best < i \<Longrightarrow> argmax_from vs i best bv < i + length vs"
  by (induction vs i best bv rule: argmax_from.induct) auto

lemma np_argmax_range:
  assumes "np_argmax pmf = Inr c"
  shows "0 \<le> c \<and> c < int (length pmf)"
proof (cases pmf)
  case Nil
  with assms show ?thesis by (simp add: np_argmax_def)
next
  case (Cons v vs)
  have "argmax_from vs 1 0 v < 1 + length vs" by (rule argmax_from_bound) simp
  with assms Cons show ?thesis by (auto simp: np_argmax_def)
qed

lemma one_hot_range:
  assumes "one_hot n k = Inr y" and "0 \<le> k"
  shows "k < n"
  using assms by (auto simp: one_hot_def np_zeros_def set_item_def Let_def split: if_splits)

lemma decode_step_code_range:
  assumes "decode_step M a st = Inr (code, st')"
  shows "0 \<le> code \<and> code < num_output_tokens M"
proof -
  obtain y h c where st: "st = (y, h, c)" by (cases st) auto
  from assms st obtain pmf y' where am: "np_argmax pmf = Inr code"
    and oh: "one_hot (num_output_tokens M) code = Inr y'"
    by (auto simp: decode_step_def split: sum.splits prod.splits)
  from am have "0 \<le> code" using np_argmax_range by blast
  with oh show ?thesis using one_hot_range by blast
qed

lemma decode_loop_invariant:
  fixes M :: "('x, 'e, 's) InferenceModel"
  assumes ret: "decode_loop M a sos eos st labels = Some (Inr r)"
    and init: "I labels"
    and step: "\<And>ls code s s'. I ls \<Longrightarrow> decode_step M a s = Inr (code, s') \<Longrightarrow> code \<noteq> eos
                 \<Longrightarrow> length ls \<le> 100 \<Longrightarrow> code \<noteq> sos \<Longrightarrow> I (ls @ [code])"
  shows "I r"
proof -
  let ?P = "\<lambda>M' a' sos' eos' (st :: real list \<times> 's \<times> 's) ls (res :: error + int list).
     M' = M \<longrightarrow> a' = a \<longrightarrow> sos' = sos \<longrightarrow> eos' = eos \<longrightarrow> I ls \<longrightarrow> (\<forall>r. res = Inr r \<longrightarrow> I r)"
  have "?P M a sos eos st labels (Inr r)"
  proof (rule decode_loop.raw_induct[where P = ?P, OF _ ret])
    fix f :: "('x, 'e, 's) InferenceModel \<Rightarrow> 'e \<Rightarrow> int \<Rightarrow> int \<Rightarrow> real list \<times> 's \<times> 's \<Rightarrow> int list
                \<Rightarrow> (error + int list) option"
      and M' a' sos' eos' st ls res
    assume IH: "\<And>M' a' sos' eos' st ls res. f M' a' sos' eos' st ls = Some res \<Longrightarrow> ?P M' a' sos' eos' st ls res"
      and body: "(case decode_step M' a' st of
        Inl e \<Rightarrow> Some (Inl e)
      | Inr (code, st') \<Rightarrow>
          if code = eos' \<or> length ls > 100 then Some (Inr ls)
          else if code = sos' then f M' a' sos' eos' st' ls
          else f M' a' sos' eos' st' (ls @ [code])) = Some res"
    show "?P M' a' sos' eos' st ls res"
    proof (intro impI allI)
      fix r
      assume eqs: "M' = M" "a' = a" "sos' = sos" "eos' = eos" and I: "I ls" and res: "res = Inr r"
      show "I r"
      proof (cases "decode_step M a st")
        case (Inl e)
        with body eqs res show ?thesis by simp
      next
        case (Inr p)
        obtain code st' where p: "p = (code, st')" by (cases p)
        show ?thesis
        proof (cases "code = eos \<or> length ls > 100")
          case True
          with body eqs res Inr p I show ?thesis by auto
        next
          case False
          note nb = this
          show ?thesis
          proof (cases "code = sos")
            case True
            with body eqs Inr p nb have "f M a sos eos st' ls = Some res" by simp
            from IH[OF this] I res show ?thesis by simp
          next
            case False
            with body eqs Inr p nb have "f M a sos eos st' (ls @ [code]) = Some res" by simp
            moreover have "I (ls @ [code])"
              using step[OF I] Inr p nb False by simp
            ultimately show ?thesis using IH res by blast
          qed
        qed
      qed
    qed
  qed
  with init show ?thesis by blast
qed

lemma decode_loop_length:
  assumes "decode_loop M a sos eos st labels = Some (Inr r)" and "length labels \<le> 101"
  shows "length r \<le> 101"
  by (rule decode_loop_invariant[OF assms(1), where I="\<lambda>ls. length ls \<le> 101"]) (use assms(2) in auto)

lemma decode_loop_members:
  assumes "decode_loop M a sos eos st labels = Some (Inr r)"
  shows "set r \<subseteq> set labels \<union> {c. 0 \<le> c \<and> c < num_output_tokens M \<and> c \<noteq> sos \<and> c \<noteq> eos}"
  by (rule decode_loop_invariant[OF assms(1), where I="\<lambda>ls. set ls \<subseteq> set labels \<union> {c. 0 \<le> c \<and> c < num_output_tokens M \<and> c \<noteq> sos \<and> c \<noteq> eos}"])
     (auto dest: decode_step_code_range)

lemma run_steps_length: "run_steps M a st n = Inr (cs, st') \<Longrightarrow> length cs = n"
  by (induction n arbitrary: st cs) (auto split: sum.splits prod.splits)

lemma decode_loop_unfold:
  assumes "run_steps M a st n = Inr (cs, st')" and "eos \<notin> set cs"
    and "cs \<noteq> [] \<longrightarrow> length labels + length (filter (\<lambda>c. c \<noteq> sos) (butlast cs)) \<le> 100"
  shows "decode_loop M a sos eos st labels
           = decode_loop M a sos eos st' (labels @ filter (\<lambda>c. c \<noteq> sos) cs)"
  using assms
proof (induction n arbitrary: st cs labels)
  case 0
  then show ?case by simp
next
  case (Suc n)
  from Suc.prems(1) obtain code st1 cs' where
    step: "decode_step M a st = Inr (code, st1)"
    and rest: "run_steps M a st1 n = Inr (cs', st')" and cs: "cs = code # cs'"
    by (auto split: sum.splits prod.splits)
  from Suc.prems(2) cs have ne: "code \<noteq> eos" and ne': "eos \<notin> set cs'" by auto
  from Suc.prems(3) cs have len: "length labels \<le> 100" by simp
  let ?ls = "labels @ filter (\<lambda>c. c \<noteq> sos) [code]"
  have cap: "cs' \<noteq> [] \<longrightarrow> length ?ls + length (filter (\<lambda>c. c \<noteq> sos) (butlast cs')) \<le> 100"
    using Suc.prems(3) cs by auto
  have "decode_loop M a sos eos st labels = decode_loop M a sos eos st1 ?ls"
    using step ne len by (subst decode_loop.simps) simp
  also have "\<dots> = decode_loop M a sos eos st' (?ls @ filter (\<lambda>c. c \<noteq> sos) cs')"
    by (rule Suc.IH[OF rest ne' cap])
  finally show ?case using cs by simp
qed

lemma run_steps_snoc:
  "run_steps M a st (Suc n) =
     (case run_steps M a st n of
        Inl e \<Rightarrow> Inl e
      | Inr (cs, st1) \<Rightarrow>
          (case decode_step M a st1 of
             Inl e \<Rightarrow> Inl e
           | Inr (code, st2) \<Rightarrow> Inr (cs @ [code], st2)))"
proof (induction n arbitrary: st)
  case 0
  show ?case by (simp split: sum.splits prod.splits)
next
  case (Suc n)
  show ?case
    by (subst run_steps.simps(2), subst Suc.IH) (simp split: sum.splits prod.splits)
qed

lemma decode_loop_break:
  assumes "decode_step M a st = Inr (code, st')" and "code = eos \<or> length labels > 100"
  shows "decode_loop M a sos eos st labels = Some (Inr labels)"
  using assms by (subst decode_loop.simps) auto

lemma decode_loop_stops_at_eos:
  assumes run: "run_steps M a st (Suc n) = Inr (cs @ [eos], st')" and "eos \<notin> set cs"
    and cap: "cs \<noteq> [] \<longrightarrow> length labels + length (filter (\<lambda>c. c \<noteq> sos) (butlast cs)) \<le> 100"
  shows "decode_loop M a sos eos st labels = Some (Inr (labels @ filter (\<lambda>c. c \<noteq> sos) cs))"
proof -
  from run have "(case run_steps M a st n of
        Inl e \<Rightarrow> Inl e
      | Inr (cs, st1) \<Rightarrow>
          (case decode_step M a st1 of
             Inl e \<Rightarrow> Inl e
           | Inr (code, st2) \<Rightarrow> Inr (cs @ [code], st2))) = Inr (cs @ [eos], st')"
    by (simp only: run_steps_snoc)
  then obtain cs1 st1 code where
    r1: "run_steps M a st n = Inr (cs1, st1)" and
    s1: "decode_step M a st1 = Inr (code, st')" and e: "cs @ [eos] = cs1 @ [code]"
    by (auto simp del: run_steps.simps split: sum.splits prod.splits)
  from e have cs1: "cs1 = cs" and code: "code = eos" by auto
  have "decode_loop M a sos eos st labels
          = decode_loop M a sos eos st1 (labels @ filter (\<lambda>c. c \<noteq> sos) cs)"
    using decode_loop_unfold[OF r1[unfolded cs1] assms(2) cap] .
  also have "\<dots> = Some (Inr (labels @ filter (\<lambda>c. c \<noteq> sos) cs))"
    using s1 code by (intro decode_loop_break) auto
  finally show ?thesis .
qed

lemma argmax_from_zeros: "0 \<le> bv \<Longrightarrow> argmax_from (replicate m 0 @ vs) i best bv = argmax_from vs (i + m) best bv"
  by (induction m arbitrary: i) auto

lemma argmax_from_zeros': "0 \<le> bv \<Longrightarrow> argmax_from (replicate m 0) i best bv = best"
  using argmax_from_zeros[of bv m "[]" i best] by simp

lemma one_hot_list: "k < n \<Longrightarrow> (replicate n (0::real))[k := 1] = replicate k 0 @ 1 # replicate (n - Suc k) 0"
  by (induction n arbitrary: k) (auto split: nat.splits)

lemma np_argmax_one_hot:
  assumes "k < n"
  shows "np_argmax ((replicate n 0)[k := 1]) = Inr (int k)"
proof (cases k)
  case 0
  with assms show ?thesis
    by (simp add: one_hot_list np_argmax_def argmax_from_zeros')
next
  case (Suc j)
  with assms have "(replicate n (0::real))[k := 1] = 0 # (replicate j 0 @ 1 # replicate (n - Suc k) 0)"
    by (simp add: one_hot_list)
  then show ?thesis using Suc
    by (simp add: np_argmax_def argmax_from_zeros argmax_from_zeros')
qed

lemma one_hot_nat: "k < n \<Longrightarrow> one_hot (int n) (int k) = Inr ((replicate n 0)[k := 1])"
  by (simp add: one_hot_def np_zeros_def set_item_def)

lemma decode_step_scripted:
  assumes "(if h < length cs then cs ! h else d) < n"
  shows "decode_step (scripted_model n cs d) a (y, h, c) =
           Inr (int (if h < length cs then cs ! h else d),
                (replicate n 0)[(if h < length cs then cs ! h else d) := 1], Suc h, c)"
  using assms
  by (simp add: decode_step_def scripted_model_def np_argmax_one_hot one_hot_nat del: replicate.simps)

lemma run_steps_constant:
  assumes "d < n"
  shows "\<exists>st'. run_steps (scripted_model n [] d) a (y, h, c) m = Inr (replicate m (int d), st')"
proof (induction m arbitrary: y h)
  case 0
  show ?case by simp
next
  case (Suc m)
  have s: "decode_step (scripted_model n [] d) a (y, h, c) = Inr (int d, (replicate n 0)[d := 1], Suc h, c)"
    using decode_step_scripted[of h "[]" d n a y c] assms by simp
  from Suc[of "(replicate n 0)[d := 1]" "Suc h"] obtain st' where
    "run_steps (scripted_model n [] d) a ((replicate n 0)[d := 1], Suc h, c) m = Inr (replicate m (int d), st')" by blast
  with s show ?case by (simp del: split_paired_Ex)
qed

lemma never_eos_101:
  "predict_single_output (scripted_model 3 [] 2) () 0 1 = Some (Inr (replicate 101 2))"
proof -
  let ?M = "scripted_model 3 [] 2"
  let ?y = "(replicate 3 (0::real))[0 := 1]"
  obtain st' where r: "run_steps ?M () (?y, 0, 0) 101 = Inr (replicate 101 (int 2), st')"
    using run_steps_constant[of 2 3 "()" ?y 0 0 101] by auto
  have u: "decode_loop ?M () 0 1 (?y, 0, 0) [] = decode_loop ?M () 0 1 st' ([] @ filter (\<lambda>c. c \<noteq> 0) (replicate 101 (int 2)))"
    by (rule decode_loop_unfold[OF r]) (simp_all add: butlast_conv_take)
  obtain y' h' c' where st': "st' = (y', h', c')" by (cases st') auto
  have s: "decode_step ?M () (y', h', c') = Inr (int 2, (replicate 3 0)[2 := 1], Suc h', c')"
    using decode_step_scripted[of h' "[]" 2 3 "()" y' c'] by simp
  have b: "decode_loop ?M () 0 1 st' (replicate 101 2) = Some (Inr (replicate 101 2))"
    unfolding st' by (rule decode_loop_break[OF s]) simp
  have "predict_single_output ?M () 0 1 = decode_loop ?M () 0 1 (?y, 0, 0) []"
    using one_hot_nat[of 0 3] by (simp add: predict_single_output_def scripted_model_def)
  with u b show ?thesis by simp
qed

lemma stuck_loop:
  assumes "length labels \<le> 100"
  shows "decode_loop (scripted_model 2 [] 0) a 0 1 st labels = None"
proof -
  let ?M = "scripted_model 2 [] 0"
  let ?P = "\<lambda>(M' :: (unit, unit, nat) InferenceModel) (a' :: unit) (sos' :: int) (eos' :: int)
      (st :: real list \<times> nat \<times> nat) (ls :: int list) (res :: error + int list).
      \<not> (M' = ?M \<and> sos' = 0 \<and> eos' = 1 \<and> length ls \<le> 100)"
  have "?P ?M a 0 1 st labels res" if ret: "decode_loop ?M a 0 1 st labels = Some res" for res
  proof (rule decode_loop.raw_induct[where P = ?P, OF _ ret])
    fix f :: "(unit, unit, nat) InferenceModel \<Rightarrow> unit \<Rightarrow> int \<Rightarrow> int \<Rightarrow> real list \<times> nat \<times> nat \<Rightarrow> int list
                \<Rightarrow> (error + int list) option"
      and M' a' sos' eos' st ls res
    assume IH: "\<And>M' a' sos' eos' st ls res. f M' a' sos' eos' st ls = Some res \<Longrightarrow> ?P M' a' sos' eos' st ls res"
      and body: "(case decode_step M' a' st of
        Inl e \<Rightarrow> Some (Inl e)
      | Inr (code, st') \<Rightarrow>
          if code = eos' \<or> length ls > 100 then Some (Inr ls)
          else if code = sos' then f M' a' sos' eos' st' ls
          else f M' a' sos' eos' st' (ls @ [code])) = Some res"
    show "?P M' a' sos' eos' st ls res"
    proof
      assume eqs: "M' = ?M \<and> sos' = 0 \<and> eos' = 1 \<and> length ls \<le> 100"
      obtain y h c where st: "st = (y, h, c)" by (cases st) auto
      have s: "decode_step ?M a' (y, h, c) = Inr (int 0, (replicate 2 0)[0 := 1], Suc h, c)"
        using decode_step_scripted[of h "[]" 0 2 a' y c] by simp
      from body eqs st s have "f ?M a' 0 1 ((replicate 2 0)[0 := 1], Suc h, c) ls = Some res"
        by (simp split: if_splits)
      from IH[OF this] eqs show False by simp
    qed
  qed
  with assms show ?thesis by (cases "decode_loop ?M a 0 1 st labels") auto
qed

lemma predict_loop:
  assumes "predict_single_output M x sos eos = Some (Inr r)"
  obtains a h c y where "encoder M x = Inr (a, h, c)" and "one_hot (num_output_tokens M) sos = Inr y"
    and "decode_loop M a sos eos (y, h, c) [] = Some (Inr r)"
  using assms by (auto simp: predict_single_output_def split: sum.splits prod.splits)

lemma predict_stops_at_eos:
  assumes codes: "argmax_codes M x sos (Suc n) = Some (cs @ [eos])" and "eos \<notin> set cs"
    and cap: "length (filter (\<lambda>c. c \<noteq> sos) (butlast cs)) \<le> 100"
  shows "predict_single_output M x sos eos = Some (Inr (filter (\<lambda>c. c \<noteq> sos) cs))"
proof -
  from codes obtain a h c y st' where e: "encoder M x = Inr (a, h, c)"
    and y: "one_hot (num_output_tokens M) sos = Inr y"
    and r: "run_steps M a (y, h, c) (Suc n) = Inr (cs @ [eos], st')"
    by (auto simp: argmax_codes_def simp del: run_steps.simps split: sum.splits prod.splits)
  have "decode_loop M a sos eos (y, h, c) [] = Some (Inr ([] @ filter (\<lambda>c. c \<noteq> sos) cs))"
    by (rule decode_loop_stops_at_eos[OF r assms(2)]) (use cap in simp)
  with e y show ?thesis by (simp add: predict_single_output_def)
qed

lemma scripted_codes_341: "argmax_codes (scripted_model 5 [3, 4, 1] 1) () 0 3 = Some [3, 4, 1]"
  by code_simp

lemma scripted_codes_031: "argmax_codes (scripted_model 5 [0, 3, 1] 1) () 0 3 = Some [0, 3, 1]"
  by code_simp

lemma predict_members:
  assumes "predict_single_output M x sos eos = Some (Inr r)"
  shows "set r \<subseteq> {c. 0 \<le> c \<and> c < num_output_tokens M \<and> c \<noteq> sos \<and> c \<noteq> eos}"
proof -
  from assms obtain a h c y where "decode_loop M a sos eos (y, h, c) [] = Some (Inr r)"
    by (rule predict_loop)
  from decode_loop_members[OF this] show ?thesis by simp
qed

text \<open>
  Claim C1, as stated, fails: a decoder whose argmax is the code 2 at every step, with
  \<open>sos = 0\<close> and \<open>eos = 1\<close>, makes \<open>predict_single_output\<close> return 101 labels. The
  test \<^verbatim>\<open>len(labels) > 100\<close> is still false when the list holds 100 labels, so one more
  is appended before the loop stops.
\<close>

theorem C1_counterexample:
  "predict_single_output (scripted_model 3 [] 2) () 0 1 = Some (Inr (replicate 101 2))
   \<and> \<not> length (replicate 101 (2::int)) \<le> 100"
  using never_eos_101 by simp

text \<open>
  Claim C1, amended: for every model, image, \<open>sos\<close> and \<open>eos\<close>, the label sequence that
  \<open>predict_single_output\<close> returns has length at most 101, also when \<open>eos\<close> is never
  produced.
\<close>

theorem C1_length_at_most_101:
  assumes "predict_single_output M x sos eos = Some (Inr labels)"
  shows "length labels \<le> 101"
proof -
  from assms obtain a h c y where "decode_loop M a sos eos (y, h, c) [] = Some (Inr labels)"
    by (rule predict_loop)
  then show ?thesis by (rule decode_loop_length) simp
qed

text \<open>The bound of 101 is reached by the run in which the decoder never produces \<open>eos\<close>.\<close>

theorem C1_length_at_most_101_witness:
  "predict_single_output (scripted_model 3 [] 2) () 0 1 = Some (Inr (replicate 101 2))
   \<and> length (replicate 101 (2::int)) \<le> 101"
  using never_eos_101 C1_length_at_most_101[OF never_eos_101] by simp

text \<open>
  Claim C2: the loop is claimed to terminate whenever \<open>sos\<close> and \<open>eos\<close> differ, in
  particular when the argmax code equals \<open>sos\<close> at every step. The code does not: with
  \<open>sos = 0\<close>, \<open>eos = 1\<close> and a decoder whose argmax is 0 at every step, each iteration
  takes the \<^verbatim>\<open>continue\<close> of line 48, \<open>labels\<close> stays empty, the test of line 44 is never
  true, and \<open>predict_single_output\<close> never returns.
\<close>

theorem C2_sos_at_every_step_never_returns:
  "argmax_codes (scripted_model 2 [] 0) () 0 n = Some (replicate n 0)
   \<and> predict_single_output (scripted_model 2 [] 0) () 0 1 = None"
proof
  obtain st' where
    "run_steps (scripted_model 2 [] 0) () ((replicate 2 0)[0 := 1], 0, 0) n
       = Inr (replicate n (int 0), st')"
    using run_steps_constant[of 0 2 "()" "(replicate 2 0)[0 := 1]" 0 0 n] by auto
  then show "argmax_codes (scripted_model 2 [] 0) () 0 n = Some (replicate n 0)"
    using one_hot_nat[of 0 2] by (simp add: argmax_codes_def scripted_model_def)
  show "predict_single_output (scripted_model 2 [] 0) () 0 1 = None"
    using one_hot_nat[of 0 2] stuck_loop[of "[]"]
    by (simp add: predict_single_output_def scripted_model_def)
qed

text \<open>
  Claim C3: the loop stops at the first step whose argmax code equals \<open>eos\<close>, that code
  is not appended, and the returned label sequence contains no \<open>eos\<close>. If the first
  \<open>n + 1\<close> argmax codes of a run are \<open>cs\<close> followed by \<open>eos\<close>, with no \<open>eos\<close> in \<open>cs\<close>,
  and the length test has not stopped the loop before (at most 100 labels were collected
  before the last code of \<open>cs\<close>), then \<open>predict_single_output\<close> returns exactly the codes
  of \<open>cs\<close> other than \<open>sos\<close>. And whatever the run, a returned list has no \<open>eos\<close>.
\<close>

theorem C3_stops_at_first_eos:
  "(argmax_codes M x sos (Suc n) = Some (cs @ [eos]) \<longrightarrow> eos \<notin> set cs \<longrightarrow>
      length (filter (\<lambda>c. c \<noteq> sos) (butlast cs)) \<le> 100 \<longrightarrow>
      predict_single_output M x sos eos = Some (Inr (filter (\<lambda>c. c \<noteq> sos) cs)))
   \<and> (predict_single_output M x sos eos = Some (Inr labels) \<longrightarrow> eos \<notin> set labels)"
  using predict_stops_at_eos[of M x sos n cs eos] predict_members[of M x sos eos labels] by auto

text \<open>The run with the argmax codes 3, 4, 1 and \<open>eos = 1\<close>.\<close>

theorem C3_stops_at_first_eos_witness:
  "argmax_codes (scripted_model 5 [3, 4, 1] 1) () 0 (Suc 2) = Some ([3, 4] @ [1])
   \<and> 1 \<notin> set [3, 4 :: int]
   \<and> length (filter (\<lambda>c. c \<noteq> 0) (butlast [3, 4 :: int])) \<le> 100
   \<and> predict_single_output (scripted_model 5 [3, 4, 1] 1) () 0 1 = Some (Inr [3, 4])
   \<and> 1 \<notin> set [3, 4 :: int]"
proof -
  have c: "argmax_codes (scripted_model 5 [3, 4, 1] 1) () 0 (Suc 2) = Some ([3, 4] @ [1])"
    using scripted_codes_341 by simp
  from C3_stops_at_first_eos[of "scripted_model 5 [3, 4, 1] 1" "()" 0 2 "[3, 4]" 1 "[3, 4]"] c
  show ?thesis by simp
qed






text \<open>
  Claim C5: with \<open>sos = 0\<close> and \<open>eos = 1\<close>, a run whose successive argmax codes are
  3, 4, 1 returns \<open>[3, 4]\<close>, and a run whose successive argmax codes are 0, 3, 1 returns
  \<open>[3]\<close>. This holds for every model with such a run, whatever its \<open>output_size\<close>; the
  evaluation below takes \<open>output_size = 5\<close>.
\<close>

theorem C5_scenarios:
  "(argmax_codes M x 0 3 = Some [3, 4, 1] \<longrightarrow> predict_single_output M x 0 1 = Some (Inr [3, 4]))
   \<and> (argmax_codes M' x' 0 3 = Some [0, 3, 1] \<longrightarrow> predict_single_output M' x' 0 1 = Some (Inr [3]))"
  using predict_stops_at_eos[of M x 0 2 "[3, 4]" 1] predict_stops_at_eos[of M' x' 0 2 "[0, 3]" 1]
  by simp

text \<open>Both scenarios, on scripted decoders with five output tokens.\<close>

theorem C5_scenarios_witness:
  "num_output_tokens (scripted_model 5 [3, 4, 1] 1) = 5
   \<and> argmax_codes (scripted_model 5 [3, 4, 1] 1) () 0 3 = Some [3, 4, 1]
   \<and> predict_single_output (scripted_model 5 [3, 4, 1] 1) () 0 1 = Some (Inr [3, 4])
   \<and> num_output_tokens (scripted_model 5 [0, 3, 1] 1) = 5
   \<and> argmax_codes (scripted_model 5 [0, 3, 1] 1) () 0 3 = Some [0, 3, 1]
   \<and> predict_single_output (scripted_model 5 [0, 3, 1] 1) () 0 1 = Some (Inr [3])"
  using C5_scenarios[of "scripted_model 5 [3, 4, 1] 1" "()" "scripted_model 5 [0, 3, 1] 1" "()"]
    scripted_codes_341 scripted_codes_031
  by (simp add: scripted_model_def)

text \<open>
  Claim C10: every element of the label sequence that \<open>predict_single_output\<close> returns is
  an integer in \<open>[0, num_output_tokens)\<close>: a code is appended only after line 42 has
  written it, as an argmax index, into a fresh vector of that length. For the inference
  model of a constructed instance \<open>num_output_tokens\<close> is its \<open>output_size\<close>.
\<close>

theorem C10_labels_in_range:
  "(predict_single_output IM x sos eos = Some (Inr labels) \<longrightarrow>
      list_all (\<lambda>c. 0 \<le> c \<and> c < num_output_tokens IM) labels)
   \<and> num_output_tokens (inference_model (init fw height units output_size max_image_width max_text_length s e))
       = output_size"
  using predict_members[of IM x sos eos labels]
  by (auto simp: list_all_iff inference_model_def init_def Let_def)

text \<open>The labels 3 and 4 of the run 3, 4, 1 lie below five.\<close>

theorem C10_labels_in_range_witness:
  "predict_single_output (scripted_model 5 [3, 4, 1] 1) () 0 1 = Some (Inr [3, 4])
   \<and> list_all (\<lambda>c. 0 \<le> c \<and> c < num_output_tokens (scripted_model 5 [3, 4, 1] 1)) [3, 4]"
proof -
  have p: "predict_single_output (scripted_model 5 [3, 4, 1] 1) () 0 1 = Some (Inr [3, 4])"
    using predict_stops_at_eos[of "scripted_model 5 [3, 4, 1] 1" "()" 0 2 "[3, 4]" 1] scripted_codes_341
    by simp
  from C10_labels_in_range[of "scripted_model 5 [3, 4, 1] 1" "()" 0 1 "[3, 4]"] p
  show ?thesis by blast
qed

section \<open>Training graph, adapter and fit\<close>

lemma training_steps_unrolled:
  "training_steps (Out EncoderNet [self_encoder_inputs M] 0) (self_decoder_inputs M)
     (map int [t..<t + k]) tv
     (fst (unrolled_state M (\<lambda>t. Lambda) t)) (snd (unrolled_state M (\<lambda>t. Lambda) t)) outs
   = (if k = 0 then tv else Some (int (t + k) - 1),
      outs @ map (unrolled_output M (\<lambda>t. Lambda)) [t..<t + k])"
proof (induction k arbitrary: t tv outs)
  case 0
  show ?case by simp
next
  case (Suc k)
  have l: "[t..<t + Suc k] = t # [Suc t..<Suc t + k]" by (simp add: upt_conv_Cons)
  show ?case
    unfolding l
    using Suc.IH[of "Suc t" "Some (int t)" "outs @ [unrolled_output M (\<lambda>t. Lambda) t]"]
    by (simp add: Let_def unrolled_output_def unrolled_call_def)
qed

lemma create_training_model_graph:
  "model_outputs (create_training_model M)
     = map (unrolled_output M (\<lambda>t. Lambda)) [0..<nat (self_max_text_length M)]"
  "frame_t (create_training_model M)
     = (if self_max_text_length M \<le> 0 then None else Some (self_max_text_length M - 1))"
  using training_steps_unrolled[of M 0 "nat (self_max_text_length M)" None "[]"]
  by (simp_all add: create_training_model_def py_range_def Let_def split: prod.splits)

lemma run_unrolled_state:
  assumes "self_encoder_inputs M = Input s1" and "self_decoder_inputs M = Input s2"
  shows "run_tensor (Some i) (fst (unrolled_state M (\<lambda>t. Lambda) t))
           = Inr (fst (unrolled_state M (\<lambda>t. Slice i) t))
         \<and> run_tensor (Some i) (snd (unrolled_state M (\<lambda>t. Lambda) t))
           = Inr (snd (unrolled_state M (\<lambda>t. Slice i) t))"
proof (induction t)
  case 0
  show ?case using assms by simp
next
  case (Suc t)
  then show ?case using assms by (simp add: unrolled_call_def Let_def)
qed

lemma run_unrolled_output:
  assumes "self_encoder_inputs M = Input s1" and "self_decoder_inputs M = Input s2"
  shows "run_tensor (Some i) (unrolled_output M (\<lambda>t. Lambda) t)
           = Inr (unrolled_output M (\<lambda>t. Slice i) t)"
  using run_unrolled_state[OF assms, of i t] assms
  by (simp add: unrolled_output_def unrolled_call_def Let_def)

lemma run_tensors_map:
  assumes "\<And>x. x \<in> set xs \<Longrightarrow> run_tensor tv (f x) = Inr (g x)"
  shows "run_tensors tv (map f xs) = Inr (map g xs)"
  using assms by (induction xs) simp_all

lemma run_init_model:
  assumes "M = init fw height units output_size max_image_width max_text_length sos eos"
  shows "run_model (create_training_model M)
           = Inr (map (unrolled_output M (\<lambda>t. Slice (max_text_length - 1)))
                    [0..<nat max_text_length])"
proof -
  have T: "self_max_text_length M = max_text_length"
    and ei: "self_encoder_inputs M = Input [height, max_image_width, 1]"
    and di: "self_decoder_inputs M = Input [max_text_length, output_size]"
    by (simp_all add: assms init_def Let_def)
  show ?thesis
  proof (cases "max_text_length \<le> 0")
    case True
    then show ?thesis by (simp add: run_model_def create_training_model_graph T)
  next
    case False
    then show ?thesis
      by (simp add: run_model_def create_training_model_graph T
            run_tensors_map[where g = "unrolled_output M (\<lambda>t. Slice (max_text_length - 1))"]
            run_unrolled_output[OF ei di])
  qed
qed

lemma first_step_differs:
  assumes "i \<noteq> 0"
  shows "unrolled_output M (\<lambda>t. Slice i) 0 \<noteq> spec_output M 0"
  using assms by (simp add: spec_output_def unrolled_output_def unrolled_call_def Let_def)

text \<open>
  Claim C6: the training graph is to have exactly \<open>max_text_length\<close> outputs, one per
  step \<open>t\<close>, the decoder of step \<open>t\<close> being fed slice \<open>t\<close> of the teacher-forcing input
  with the attention context of the current state. The graph that
  \<open>_create_training_model\<close> builds has that many outputs; but when it runs, every step
  is fed slice \<open>max_text_length - 1\<close>: each \<open>Lambda\<close> layer reads \<open>t\<close> from the frame,
  where the loop has left its last value. From \<open>max_text_length = 2\<close> on this is not the
  chain of the specification.
\<close>

theorem C6_every_step_reads_last_slice:
  "length (model_outputs (create_training_model
       (init fw height units output_size max_image_width max_text_length sos eos)))
     = nat max_text_length
   \<and> run_model (create_training_model
         (init fw height units output_size max_image_width max_text_length sos eos))
       = Inr (map (unrolled_output
                     (init fw height units output_size max_image_width max_text_length sos eos)
                     (\<lambda>t. Slice (max_text_length - 1)))
                [0..<nat max_text_length])
   \<and> (2 \<le> max_text_length \<longrightarrow>
        run_model (create_training_model
          (init fw height units output_size max_image_width max_text_length sos eos))
        \<noteq> Inr (map (spec_output
                      (init fw height units output_size max_image_width max_text_length sos eos))
                 [0..<nat max_text_length]))"
proof -
  define M where "M = init fw height units output_size max_image_width max_text_length sos eos"
  have T: "self_max_text_length M = max_text_length" by (simp add: M_def init_def Let_def)
  have len: "length (model_outputs (create_training_model M)) = nat max_text_length"
    by (simp add: create_training_model_graph T)
  have run: "run_model (create_training_model M)
           = Inr (map (unrolled_output M (\<lambda>t. Slice (max_text_length - 1)))
                    [0..<nat max_text_length])"
    by (rule run_init_model) (simp add: M_def)
  have "map (unrolled_output M (\<lambda>t. Slice (max_text_length - 1))) [0..<nat max_text_length]
          \<noteq> map (spec_output M) [0..<nat max_text_length]" if "2 \<le> max_text_length"
  proof
    assume eq: "map (unrolled_output M (\<lambda>t. Slice (max_text_length - 1))) [0..<nat max_text_length]
          = map (spec_output M) [0..<nat max_text_length]"
    have "0 < nat max_text_length" using that by simp
    with eq have "unrolled_output M (\<lambda>t. Slice (max_text_length - 1)) 0 = spec_output M 0"
      by (metis (no_types, lifting) add_0 length_map length_upt nth_map nth_upt diff_zero)
    moreover have "max_text_length - 1 \<noteq> 0" using that by simp
    ultimately show False using first_step_differs by blast
  qed
  with len run show ?thesis unfolding M_def by simp
qed

lemma run_two_steps:
  "(let x = Input [32, 128, 1]; d = Input [2, 5];
        a = Out EncoderNet [x] 0; h0 = Out EncoderNet [x] 1; c0 = Out EncoderNet [x] 2;
        y = Out (Slice 1) [d] 0;
        z0 = Out (Concatenate 1) [Out AttentionNet [a, h0, c0] 0, y] 0;
        h1 = Out DecoderNet [z0, h0, c0] 1; c1 = Out DecoderNet [z0, h0, c0] 2;
        z1 = Out (Concatenate 1) [Out AttentionNet [a, h1, c1] 0, y] 0
    in run_model (create_training_model (init stub_framework 32 8 5 128 2 0 1))
         = Inr [Out DecoderNet [z0, h0, c0] 0, Out DecoderNet [z1, h1, c1] 0])"
  by code_simp

text \<open>
  An instance with \<open>max_text_length = 2\<close>: both steps of the run read slice 1 of the
  teacher-forcing input.
\<close>

theorem C6_every_step_reads_last_slice_witness:
  "(2::int) \<le> 2
   \<and> run_model (create_training_model (init stub_framework 32 8 5 128 2 0 1))
        \<noteq> Inr (map (spec_output (init stub_framework 32 8 5 128 2 0 1)) [0..<nat 2])
   \<and> (let x = Input [32, 128, 1]; d = Input [2, 5];
        a = Out EncoderNet [x] 0; h0 = Out EncoderNet [x] 1; c0 = Out EncoderNet [x] 2;
        y = Out (Slice 1) [d] 0;
        z0 = Out (Concatenate 1) [Out AttentionNet [a, h0, c0] 0, y] 0;
        h1 = Out DecoderNet [z0, h0, c0] 1; c1 = Out DecoderNet [z0, h0, c0] 2;
        z1 = Out (Concatenate 1) [Out AttentionNet [a, h1, c1] 0, y] 0
    in run_model (create_training_model (init stub_framework 32 8 5 128 2 0 1))
         = Inr [Out DecoderNet [z0, h0, c0] 0, Out DecoderNet [z1, h1, c1] 0])"
proof -
  have h: "(2::int) \<le> 2" by simp
  from C6_every_step_reads_last_slice[of stub_framework 32 8 5 128 2 0 1] h
  have "run_model (create_training_model (init stub_framework 32 8 5 128 2 0 1))
        \<noteq> Inr (map (spec_output (init stub_framework 32 8 5 128 2 0 1)) [0..<nat 2])"
    by blast
  with h run_two_steps show ?thesis by (intro conjI)
qed

text \<open>
  Claim C8: \<open>get_adapter\<close> constructs the adapter with the model's \<open>sos\<close>, \<open>eos\<close>,
  \<open>output_size\<close> (as \<open>num_output_tokens\<close>) and \<open>max_image_width\<close>, and with the text
  length \<open>max_text_length - 1\<close>.
\<close>

theorem C8_get_adapter:
  "get_adapter (init fw height units output_size max_image_width max_text_length sos eos)
     = \<lparr> adapter_sos = sos, adapter_eos = eos, adapter_num_output_tokens = output_size,
         adapter_max_image_width = max_image_width,
         adapter_max_text_length = max_text_length - 1 \<rparr>
   \<and> adapter_sos (get_adapter M) = self_sos M
   \<and> adapter_eos (get_adapter M) = self_eos M
   \<and> adapter_num_output_tokens (get_adapter M) = self_num_output_tokens M
   \<and> adapter_max_image_width (get_adapter M) = self_max_image_width M
   \<and> adapter_max_text_length (get_adapter M) = self_max_text_length M - 1"
  by (simp add: get_adapter_def init_def Let_def)

lemma powi_less_iff: "(2::real) powi m < 2 powi n \<longleftrightarrow> m < n"
proof
  assume "(2::real) powi m < 2 powi n"
  show "m < n"
  proof (rule ccontr)
    assume "\<not> m < n"
    then have "n \<le> m" by simp
    then have "(2::real) powi n \<le> 2 powi m" by (intro power_int_increasing) auto
    with \<open>(2::real) powi m < 2 powi n\<close> show False by simp
  qed
next
  assume "m < n"
  then show "(2::real) powi m < 2 powi n" by (intro power_int_strict_increasing) auto
qed

lemma binary_exponent_bounds:
  assumes "0 < a" and "0 < b"
  shows "2 powi (binary_exponent a b) \<le> real_of_int a / real_of_int b"
    and "real_of_int a / real_of_int b < 2 powi (binary_exponent a b + 1)"
proof -
  let ?d = "bitlen a - bitlen b"
  have la: "1 \<le> bitlen a" and lb: "1 \<le> bitlen b"
    using assms by (auto simp: bitlen_alt_def)
  from bitlen_bounds[OF assms(1)] have a1: "2 powi (bitlen a - 1) \<le> real_of_int a"
    and a2: "real_of_int a < 2 powi (bitlen a)"
    using la by (auto simp: power_int_def)
  from bitlen_bounds[OF assms(2)] have b1: "2 powi (bitlen b - 1) \<le> real_of_int b"
    and b2: "real_of_int b < 2 powi (bitlen b)"
    using lb by (auto simp: power_int_def)
  have bpos: "0 < real_of_int b" using assms by simp
  have lo: "2 powi (?d - 1) \<le> real_of_int a / real_of_int b"
  proof -
    have "2 powi (?d - 1) * real_of_int b \<le> 2 powi (?d - 1) * 2 powi (bitlen b)"
      using b2 by (intro mult_left_mono) auto
    also have "\<dots> = 2 powi (bitlen a - 1)"
      by (simp flip: power_int_add)
    also have "\<dots> \<le> real_of_int a" by (rule a1)
    finally show ?thesis using bpos by (simp add: pos_le_divide_eq)
  qed
  have hi: "real_of_int a / real_of_int b < 2 powi (?d + 1)"
  proof -
    have "real_of_int a < 2 powi (bitlen a)" by (rule a2)
    also have "\<dots> = 2 powi (?d + 1) * 2 powi (bitlen b - 1)"
      by (simp flip: power_int_add)
    also have "\<dots> \<le> 2 powi (?d + 1) * real_of_int b"
      using b1 by (intro mult_left_mono) auto
    finally show ?thesis using bpos by (simp add: pos_divide_less_eq)
  qed
  show "2 powi (binary_exponent a b) \<le> real_of_int a / real_of_int b"
    using lo bpos by (auto simp: binary_exponent_def Let_def pos_le_divide_eq mult.commute)
  show "real_of_int a / real_of_int b < 2 powi (binary_exponent a b + 1)"
    using hi bpos by (auto simp: binary_exponent_def Let_def pos_divide_less_eq mult.commute not_le)
qed

lemma round_half_even_le:
  assumes "y \<le> of_int n"
  shows "round_half_even y \<le> n"
proof -
  have f: "\<lfloor>y\<rfloor> \<le> n" using assms by (simp add: floor_le_iff)
  show ?thesis
  proof (cases "y = of_int \<lfloor>y\<rfloor>")
    case True
    then show ?thesis using f by (simp add: round_half_even_def Let_def)
  next
    case False
    then have "y \<noteq> of_int n" by auto
    with assms have "y < of_int n" by simp
    then have "\<lfloor>y\<rfloor> < n" by (simp add: floor_less_iff)
    then show ?thesis by (auto simp: round_half_even_def Let_def)
  qed
qed

lemma round_half_even_gt:
  assumes "of_int n + 1 / 2 < y"
  shows "n < round_half_even y"
proof -
  have "n \<le> \<lfloor>y\<rfloor>" using assms by (simp add: le_floor_iff)
  moreover have "n = \<lfloor>y\<rfloor> \<Longrightarrow> 1 / 2 < y - of_int \<lfloor>y\<rfloor>" using assms by simp
  ultimately show ?thesis
    by (cases "n = \<lfloor>y\<rfloor>") (auto simp: round_half_even_def Let_def)
qed

lemma ceil_div_exact_pos:
  assumes a: "0 < a" "a < 2 ^ 53" and b: "0 < b" "b < 2 ^ 53"
  shows "ceil_div a b = Inr \<lceil>real_of_int a / real_of_int b\<rceil>"
proof -
  define x where "x = real_of_int a / real_of_int b"
  define e where "e = binary_exponent a b"
  define k where "k = \<lceil>x\<rceil>"
  have apos: "0 < real_of_int a" and bpos: "0 < real_of_int b" using a b by simp_all
  have xpos: "0 < x" using apos bpos by (simp add: x_def)
  have e1: "2 powi e \<le> x" and e2: "x < 2 powi (e + 1)"
    using binary_exponent_bounds[OF a(1) b(1)] by (simp_all add: x_def e_def)
  have b1: "1 \<le> real_of_int b" using b by simp
  have a53: "real_of_int a < 2 ^ 53"
    using a(2) by (metis of_int_less_iff of_int_numeral of_int_power)
  have b53: "real_of_int b < 2 ^ 53"
    using b(2) by (metis of_int_less_iff of_int_numeral of_int_power)
  have xa: "x \<le> real_of_int a"
    using apos b1 by (simp add: x_def field_simps)
  have "2 powi e < (2::real) powi 53" using e1 xa a53 by simp
  then have e_hi: "e \<le> 52" by (simp only: powi_less_iff)
  have "1 / real_of_int b \<le> x" using apos bpos a(1) by (simp add: x_def field_simps)
  moreover have "(2::real) powi (- 53) < 1 / real_of_int b"
    using b53 bpos by (simp add: power_int_minus field_simps)
  ultimately have "(2::real) powi (- 53) < 2 powi (e + 1)" using e2 by linarith
  then have e_lo: "- 53 \<le> e" by (simp only: powi_less_iff)
  define j where "j = nat (52 - e)"
  define J where "J = (2::real) ^ j"
  have Jpos: "0 < J" by (simp add: J_def)
  have J1: "1 \<le> J" by (simp add: J_def)
  have q: "(2::real) powi (e - 52) = 1 / J"
    using e_hi by (simp add: power_int_def J_def j_def field_simps)
  have Jint: "J = real_of_int (2 ^ j)" by (simp add: J_def)
  have em: "max e (- 1022) = e" using e_lo by simp
  define m where "m = round_half_even (x * J)"
  have td: "true_div a b = Inr (real_of_int m / J)" if "real_of_int m / J < 2 powi 1024"
    using a b that
    by (simp add: true_div_def Let_def e_def[symmetric] em q x_def[symmetric] m_def[symmetric] abs_of_pos xpos)
  \<comment> \<open>the upper bound\<close>
  have "x \<le> real_of_int k" by (simp add: k_def)
  then have "x * J \<le> real_of_int (k * 2 ^ j)"
    using Jpos by (simp add: Jint)
  then have m_hi: "m \<le> k * 2 ^ j" unfolding m_def by (rule round_half_even_le)
  \<comment> \<open>the lower bound\<close>
  have num: "0 < a - (k - 1) * b"
  proof -
    have "real_of_int (k - 1) < x" by (simp add: k_def) linarith
    then have "real_of_int (k - 1) * real_of_int b < real_of_int a"
      using bpos by (simp add: x_def field_simps)
    then have "real_of_int ((k - 1) * b) < real_of_int a" by simp
    then show ?thesis by linarith
  qed
  then have "1 \<le> a - (k - 1) * b" by simp
  then have "1 \<le> real_of_int (a - (k - 1) * b)" by (simp only: of_int_1_le_iff)
  then have gap: "1 / real_of_int b \<le> x - real_of_int (k - 1)"
    using bpos by (simp add: x_def field_simps)
  have bJ: "real_of_int b < 2 * J"
  proof -
    have "real_of_int b * 2 powi e \<le> real_of_int a"
      using e1 bpos by (simp add: x_def field_simps)
    also have "\<dots> < 2 ^ 53" by (rule a53)
    also have "\<dots> = 2 * J * 2 powi e"
    proof -
      have "2 * J * 2 powi e = (2::real) powi (1 + int j + e)"
        by (simp add: J_def power_int_add)
      also have "1 + int j + e = 53" using e_hi by (simp add: j_def)
      finally show ?thesis by simp
    qed
    finally show ?thesis by simp
  qed
  have "1 / 2 < J / real_of_int b" using bJ bpos by (simp add: field_simps)
  also have "\<dots> = 1 / real_of_int b * J" by simp
  also have "\<dots> \<le> (x - real_of_int (k - 1)) * J"
    using gap Jpos by (intro mult_right_mono) auto
  finally have "real_of_int ((k - 1) * 2 ^ j) + 1 / 2 < x * J"
    by (simp add: Jint algebra_simps)
  then have m_lo: "(k - 1) * 2 ^ j < m" unfolding m_def by (rule round_half_even_gt)
  \<comment> \<open>the ceiling of the rounded quotient\<close>
  have r_hi: "real_of_int m / J \<le> real_of_int k"
  proof -
    have "real_of_int m \<le> real_of_int (k * 2 ^ j)" using m_hi by (simp only: of_int_le_iff)
    then show ?thesis using Jpos by (simp add: Jint field_simps)
  qed
  have r_lo: "real_of_int k - 1 < real_of_int m / J"
  proof -
    have "real_of_int ((k - 1) * 2 ^ j) < real_of_int m" using m_lo by (simp only: of_int_less_iff)
    then show ?thesis using Jpos by (simp add: Jint field_simps)
  qed
  have c: "\<lceil>real_of_int m / J\<rceil> = k"
    using r_hi r_lo by (simp add: ceiling_eq_iff)
  have "real_of_int k < 2 ^ 53 + 1"
  proof -
    have "real_of_int k < x + 1" by (simp add: k_def) linarith
    with xa a53 show ?thesis by linarith
  qed
  then have "real_of_int m / J < 2 powi 1024" using r_hi by simp
  from td[OF this] c show ?thesis by (simp add: ceil_div_def k_def x_def)
qed

lemma ceil_div_exact:
  assumes "0 \<le> a" "a < 2 ^ 53" "0 < b" "b < 2 ^ 53"
  shows "ceil_div a b = Inr \<lceil>real_of_int a / real_of_int b\<rceil>"
proof (cases "a = 0")
  case True
  with assms show ?thesis by (simp add: ceil_div_def true_div_def)
next
  case False
  with assms have "0 < a" by simp
  then show ?thesis using assms by (intro ceil_div_exact_pos)
qed

lemma ceil_div_zero: "ceil_div a 0 = Inl ZeroDivisionError"
  by (simp add: ceil_div_def true_div_def)

lemma ceil_div_2_53_plus_1: "ceil_div 9007199254740993 1 = Inr 9007199254740992"
  by code_simp

text \<open>
  Claim C9, amended: for generators whose sizes lie in \<open>[0, 2^53)\<close> and whose batch sizes
  lie in \<open>(0, 2^53)\<close>, and training parameters that do not repeat \<open>steps_per_epoch\<close>,
  \<open>validation_data\<close> or \<open>validation_steps\<close>, \<open>fit\<close> runs the training procedure with
  \<open>steps_per_epoch = ceil(size / batch_size)\<close> of the training generator and
  \<open>validation_steps = ceil(size / batch_size)\<close> of the validation generator, compiles
  with the loss \<open>categorical_crossentropy\<close>, and uses \<open>Adam\<close> with learning rate 0.001
  when the compilation parameters supply no \<open>optimizer\<close> entry and the supplied
  optimizer when they do.
\<close>

theorem C9_fit_in_range:
  assumes "0 \<le> gen_size train_generator" and "gen_size train_generator < 2 ^ 53"
    and "0 < gen_batch_size train_generator" and "gen_batch_size train_generator < 2 ^ 53"
    and "0 \<le> gen_size val_generator" and "gen_size val_generator < 2 ^ 53"
    and "0 < gen_batch_size val_generator" and "gen_batch_size val_generator < 2 ^ 53"
    and "case training_params of
           None \<Rightarrow> True
         | Some m \<Rightarrow> m ''steps_per_epoch'' = None \<and> m ''validation_data'' = None
                      \<and> m ''validation_steps'' = None"
  shows "fit M train_generator val_generator compilation_params training_params =
     Inr \<lparr> trained_model = create_training_model M,
           compile_optimizer =
             (case compilation_params of
                None \<Rightarrow> Adam (1 / 1000)
              | Some m \<Rightarrow> (case m ''optimizer'' of None \<Rightarrow> Adam (1 / 1000) | Some v \<Rightarrow> v)),
           compile_loss = ''categorical_crossentropy'',
           compile_metrics =
             (case compilation_params of
                None \<Rightarrow> EmptyList
              | Some m \<Rightarrow> (case m ''metrics'' of None \<Rightarrow> EmptyList | Some v \<Rightarrow> v)),
           fit_data = gen_iter train_generator,
           fit_steps_per_epoch =
             \<lceil>real_of_int (gen_size train_generator) / real_of_int (gen_batch_size train_generator)\<rceil>,
           fit_validation_data = gen_iter val_generator,
           fit_validation_steps =
             \<lceil>real_of_int (gen_size val_generator) / real_of_int (gen_batch_size val_generator)\<rceil>,
           fit_kwargs = (case training_params of None \<Rightarrow> Map.empty | Some m \<Rightarrow> m) \<rparr>"
proof -
  have t: "ceil_div (gen_size train_generator) (gen_batch_size train_generator)
             = Inr \<lceil>real_of_int (gen_size train_generator) / real_of_int (gen_batch_size train_generator)\<rceil>"
    using assms(1-4) by (rule ceil_div_exact)
  have v: "ceil_div (gen_size val_generator) (gen_batch_size val_generator)
             = Inr \<lceil>real_of_int (gen_size val_generator) / real_of_int (gen_batch_size val_generator)\<rceil>"
    using assms(5-8) by (rule ceil_div_exact)
  show ?thesis
    using assms(9)
    by (cases compilation_params; cases training_params)
       (simp_all add: fit_def t v or_empty_def Let_def split: option.splits)
qed

text \<open>
  Claim C9, as stated, fails. A caller can supply \<open>Adam\<close> with learning rate 0.001
  itself, so that optimizer is used also when there is an \<open>optimizer\<close> entry. With
  \<open>2^53 + 1\<close> examples in batches of one, the quotient is rounded to the double \<open>2^53\<close>
  and \<open>steps_per_epoch\<close> is one less than the ceiling. A batch size of zero raises
  ZeroDivisionError, and training parameters with a \<open>steps_per_epoch\<close> entry raise
  TypeError, before any training.
\<close>

theorem C9_counterexample:
  "fit (init stub_framework 32 8 5 128 3 0 1)
       \<lparr> gen_size = 9007199254740993, gen_batch_size = 1, gen_iter = () \<rparr>
       \<lparr> gen_size = 7, gen_batch_size = 7, gen_iter = () \<rparr>
       (Some [''optimizer'' \<mapsto> (Adam (1 / 1000) :: unit pyobj)]) None
     = Inr \<lparr> trained_model = create_training_model (init stub_framework 32 8 5 128 3 0 1),
             compile_optimizer = Adam (1 / 1000),
             compile_loss = ''categorical_crossentropy'',
             compile_metrics = EmptyList,
             fit_data = (), fit_steps_per_epoch = 9007199254740992,
             fit_validation_data = (), fit_validation_steps = 1,
             fit_kwargs = Map.empty \<rparr>
   \<and> \<lceil>real_of_int 9007199254740993 / real_of_int 1\<rceil> = (9007199254740993 :: int)
   \<and> fit (init stub_framework 32 8 5 128 3 0 1)
       \<lparr> gen_size = 10, gen_batch_size = 0, gen_iter = () \<rparr>
       \<lparr> gen_size = 7, gen_batch_size = 7, gen_iter = () \<rparr>
       (None :: (string \<rightharpoonup> unit pyobj) option) None
     = Inl ZeroDivisionError
   \<and> fit (init stub_framework 32 8 5 128 3 0 1)
       \<lparr> gen_size = 10, gen_batch_size = 3, gen_iter = () \<rparr>
       \<lparr> gen_size = 7, gen_batch_size = 7, gen_iter = () \<rparr>
       None (Some [''steps_per_epoch'' \<mapsto> (Other () :: unit pyobj)])
     = Inl TypeError"
proof -
  have c7: "ceil_div 7 7 = Inr 1" using ceil_div_exact[of 7 7] by simp
  have c10: "ceil_div 10 3 = Inr 4" using ceil_div_exact[of 10 3] by simp
  show ?thesis
    by (simp add: fit_def ceil_div_2_53_plus_1 ceil_div_zero c7 c10 or_empty_def Let_def)
qed

text \<open>
  Ten training examples in batches of three and seven validation examples in one batch,
  first with no parameters, then with an optimizer and an \<open>epochs\<close> entry supplied.
\<close>

theorem C9_fit_in_range_witness:
  "(0::int) \<le> 10 \<and> (10::int) < 2 ^ 53 \<and> (0::int) < 3 \<and> (3::int) < 2 ^ 53
   \<and> (0::int) \<le> 7 \<and> (7::int) < 2 ^ 53 \<and> (0::int) < 7
   \<and> fit (init stub_framework 32 8 5 128 3 0 1)
       \<lparr> gen_size = 10, gen_batch_size = 3, gen_iter = () \<rparr>
       \<lparr> gen_size = 7, gen_batch_size = 7, gen_iter = () \<rparr>
       (None :: (string \<rightharpoonup> unit pyobj) option) None
     = Inr \<lparr> trained_model = create_training_model (init stub_framework 32 8 5 128 3 0 1),
             compile_optimizer = Adam (1 / 1000),
             compile_loss = ''categorical_crossentropy'',
             compile_metrics = EmptyList,
             fit_data = (), fit_steps_per_epoch = 4,
             fit_validation_data = (), fit_validation_steps = 1,
             fit_kwargs = Map.empty \<rparr>
   \<and> fit (init stub_framework 32 8 5 128 3 0 1)
       \<lparr> gen_size = 10, gen_batch_size = 3, gen_iter = () \<rparr>
       \<lparr> gen_size = 7, gen_batch_size = 7, gen_iter = () \<rparr>
       (Some [''optimizer'' \<mapsto> Other ()]) (Some [''epochs'' \<mapsto> Other ()])
     = Inr \<lparr> trained_model = create_training_model (init stub_framework 32 8 5 128 3 0 1),
             compile_optimizer = Other (),
             compile_loss = ''categorical_crossentropy'',
             compile_metrics = EmptyList,
             fit_data = (), fit_steps_per_epoch = 4,
             fit_validation_data = (), fit_validation_steps = 1,
             fit_kwargs = [''epochs'' \<mapsto> Other ()] \<rparr>"
proof -
  let ?M = "init stub_framework 32 8 5 128 3 0 1"
  let ?t = "\<lparr> gen_size = 10, gen_batch_size = 3, gen_iter = () \<rparr>"
  let ?v = "\<lparr> gen_size = 7, gen_batch_size = 7, gen_iter = () \<rparr>"
  have a: "fit ?M ?t ?v (None :: (string \<rightharpoonup> unit pyobj) option) None
     = Inr \<lparr> trained_model = create_training_model ?M,
             compile_optimizer = Adam (1 / 1000),
             compile_loss = ''categorical_crossentropy'',
             compile_metrics = EmptyList,
             fit_data = (), fit_steps_per_epoch = 4,
             fit_validation_data = (), fit_validation_steps = 1,
             fit_kwargs = Map.empty \<rparr>"
    using C9_fit_in_range[of ?t ?v None ?M None] by simp
  have b: "fit ?M ?t ?v (Some [''optimizer'' \<mapsto> Other ()]) (Some [''epochs'' \<mapsto> Other ()])
     = Inr \<lparr> trained_model = create_training_model ?M,
             compile_optimizer = Other (),
             compile_loss = ''categorical_crossentropy'',
             compile_metrics = EmptyList,
             fit_data = (), fit_steps_per_epoch = 4,
             fit_validation_data = (), fit_validation_steps = 1,
             fit_kwargs = [''epochs'' \<mapsto> Other ()] \<rparr>"
    using C9_fit_in_range[of ?t ?v "Some [''epochs'' \<mapsto> Other ()]" ?M
            "Some [''optimizer'' \<mapsto> Other ()]"] by simp
  from a b show ?thesis by simp
qed

section \<open>Save and load\<close>

lemma path_join_inject: "path_join path a = path_join path b \<longleftrightarrow> a = b"
  by (simp add: path_join_def)

lemma write_file_Inr:
  assumes "write_file fs dir p content = Inr fs'"
  shows "files fs' = (files fs)(p \<mapsto> content)" and "dirs fs' = dirs fs"
  using assms by (auto simp: write_file_def split: if_splits)

lemma save_files:
  assumes "save fs M path prep = Inr fs'"
  shows "files fs' (path_join path ''params.json'') =
           Some (JsonFile (JObject [(''name'', JString ''ConvolutionalEncoderDecoderWithAttention''),
              (''params'', JObject
                [(''height'', JInt (self_height M)), (''units'', JInt (self_units M)),
                 (''output_size'', JInt (self_output_size M)),
                 (''max_image_width'', JInt (self_max_image_width M)),
                 (''max_text_length'', JInt (self_max_text_length M)),
                 (''sos'', JInt (self_sos M)),
                 (''eos'', JInt (self_eos M))]),
              (''preprocessing'', prep)]))"
    and "files fs' (path_join path ''encoder.h5'') = Some (EncoderFile (self_encoder M))"
    and "files fs' (path_join path ''decoder.h5'') = Some (DecoderFile (self_decoder M))"
    and "files fs' (path_join path ''attention.h5'') = Some (AttentionFile (self_attention M))"
proof -
  let ?fs0 = "if \<not> path_exists fs path then mkdir fs path else fs"
  from assms obtain fs1 fs2 fs3 where
    w1: "save_model_params ?fs0 path (path_join path ''params.json'')
           ''ConvolutionalEncoderDecoderWithAttention''
           (JObject
                [(''height'', JInt (self_height M)), (''units'', JInt (self_units M)),
                 (''output_size'', JInt (self_output_size M)),
                 (''max_image_width'', JInt (self_max_image_width M)),
                 (''max_text_length'', JInt (self_max_text_length M)),
                 (''sos'', JInt (self_sos M)),
                 (''eos'', JInt (self_eos M))]) prep = Inr fs1"
    and w2: "write_file fs1 path (path_join path ''encoder.h5'') (EncoderFile (self_encoder M)) = Inr fs2"
    and w3: "write_file fs2 path (path_join path ''decoder.h5'') (DecoderFile (self_decoder M)) = Inr fs3"
    and w4: "write_file fs3 path (path_join path ''attention.h5'') (AttentionFile (self_attention M)) = Inr fs'"
    unfolding save_def Let_def by (auto split: sum.splits)
  note f1 = write_file_Inr(1)[OF w1[unfolded save_model_params_def]]
  note f2 = write_file_Inr(1)[OF w2]
  note f3 = write_file_Inr(1)[OF w3]
  note f4 = write_file_Inr(1)[OF w4]
  show "files fs' (path_join path ''params.json'') =
           Some (JsonFile (JObject [(''name'', JString ''ConvolutionalEncoderDecoderWithAttention''),
              (''params'', JObject
                [(''height'', JInt (self_height M)), (''units'', JInt (self_units M)),
                 (''output_size'', JInt (self_output_size M)),
                 (''max_image_width'', JInt (self_max_image_width M)),
                 (''max_text_length'', JInt (self_max_text_length M)),
                 (''sos'', JInt (self_sos M)),
                 (''eos'', JInt (self_eos M))]),
              (''preprocessing'', prep)]))"
    by (simp add: f4 f3 f2 f1 path_join_inject)
  show "files fs' (path_join path ''encoder.h5'') = Some (EncoderFile (self_encoder M))"
    by (simp add: f4 f3 f2 path_join_inject)
  show "files fs' (path_join path ''decoder.h5'') = Some (DecoderFile (self_decoder M))"
    by (simp add: f4 f3 path_join_inject)
  show "files fs' (path_join path ''attention.h5'') = Some (AttentionFile (self_attention M))"
    by (simp add: f4)
qed

lemma construct_saved_params:
  "construct fw (JObject
                [(''height'', JInt h), (''units'', JInt u),
                 (''output_size'', JInt os),
                 (''max_image_width'', JInt w),
                 (''max_text_length'', JInt t),
                 (''sos'', JInt s),
                 (''eos'', JInt e)]) = Inr (init fw h u os w t s e)"
  by (simp add: construct_def int_arg_def)

lemma load_after_save:
  assumes "save fs M path prep = Inr fs'"
  shows "load fw fs' path =
     Inr ((init fw (self_height M) (self_units M) (self_output_size M) (self_max_image_width M)
             (self_max_text_length M) (self_sos M) (self_eos M))
          \<lparr> self_encoder := self_encoder M, self_decoder := self_decoder M,
            self_attention := self_attention M, self_preprocessing_options := prep \<rparr>)"
  unfolding load_def Let_def
  by (simp add: save_files[OF assms] get_member_def construct_saved_params)

lemma save_succeeds:
  assumes "path \<notin> dom (files fs)"
    and "path_join path ''params.json'' \<notin> dirs fs" and "path_join path ''encoder.h5'' \<notin> dirs fs"
    and "path_join path ''decoder.h5'' \<notin> dirs fs" and "path_join path ''attention.h5'' \<notin> dirs fs"
    and "path_join path ''params.json'' \<noteq> path" and "path_join path ''encoder.h5'' \<noteq> path"
    and "path_join path ''decoder.h5'' \<noteq> path" and "path_join path ''attention.h5'' \<noteq> path"
  shows "isl (save fs M path prep) = False"
  using assms
  by (simp add: save_def Let_def save_model_params_def write_file_def path_exists_def mkdir_def)

text \<open>
  Claim C7: when \<open>save\<close> succeeds, \<open>load\<close> from the same path succeeds on the resulting
  file system, and the instance it returns has the seven configuration fields of the
  saved one, the persisted preprocessing record as its preprocessing options, and the
  three saved sub-networks.
\<close>

theorem C7_save_load_round_trip:
  assumes "save fs M path preprocessing_params = Inr fs'"
  shows "case load fw fs' path of
           Inl e \<Rightarrow> False
         | Inr M' \<Rightarrow>
             self_height M' = self_height M \<and> self_units M' = self_units M
             \<and> self_output_size M' = self_output_size M
             \<and> self_max_image_width M' = self_max_image_width M
             \<and> self_max_text_length M' = self_max_text_length M
             \<and> self_sos M' = self_sos M \<and> self_eos M' = self_eos M
             \<and> self_preprocessing_options M' = preprocessing_params
             \<and> self_encoder M' = self_encoder M \<and> self_decoder M' = self_decoder M
             \<and> self_attention M' = self_attention M"
  by (simp add: load_after_save[OF assms] init_def Let_def)

text \<open>Saving into a new directory \<open>model\<close> of an empty file system, and loading from it.\<close>

theorem C7_save_load_round_trip_witness:
  "case save empty_filesystem (init stub_framework 32 8 5 128 20 0 1) ''model''
          (JObject [(''image_height'', JInt 32)]) of
     Inl e \<Rightarrow> False
   | Inr fs' \<Rightarrow>
      (case load stub_framework fs' ''model'' of
         Inl e \<Rightarrow> False
       | Inr M' \<Rightarrow>
           self_height M' = 32 \<and> self_units M' = 8 \<and> self_output_size M' = 5
           \<and> self_max_image_width M' = 128 \<and> self_max_text_length M' = 20
           \<and> self_sos M' = 0 \<and> self_eos M' = 1
           \<and> self_preprocessing_options M' = JObject [(''image_height'', JInt 32)])"
proof -
  let ?M = "init stub_framework 32 8 5 128 20 0 1"
  let ?P = "JObject [(''image_height'', JInt 32)]"
  have "isl (save empty_filesystem ?M ''model'' ?P) = False"
    by (rule save_succeeds) (simp_all add: empty_filesystem_def path_join_def)
  then obtain fs' where s: "save empty_filesystem ?M ''model'' ?P = Inr fs'"
    by (cases "save empty_filesystem ?M ''model'' ?P") auto
  have v: "self_height ?M = 32" "self_units ?M = 8" "self_output_size ?M = 5"
    "self_max_image_width ?M = 128" "self_max_text_length ?M = 20" "self_sos ?M = 0"
    "self_eos ?M = 1"
    by (simp_all add: init_def)
  from C7_save_load_round_trip[OF s, of stub_framework] obtain M' where
    l: "load stub_framework fs' ''model'' = Inr M'"
    and f: "self_height M' = self_height ?M" "self_units M' = self_units ?M"
      "self_output_size M' = self_output_size ?M"
      "self_max_image_width M' = self_max_image_width ?M"
      "self_max_text_length M' = self_max_text_length ?M"
      "self_sos M' = self_sos ?M" "self_eos M' = self_eos ?M"
      "self_preprocessing_options M' = ?P"
    by (cases "load stub_framework fs' ''model''") auto
  show ?thesis using f v by (simp add: s l)
qed

end
